theory Spec2Isabelle
  imports Complex_Main "HOL-Library.AList"
begin

section \<open>Values, dictionaries and the state directory\<close>

text \<open>
  The scripts exchange JSON documents. A finite Python \<open>float\<close> is given by the
  rational number it denotes, and \<open>JNonFinite\<close> stands for an infinity or NaN (which
  \<open>json.dumps\<close> writes and \<open>json.loads\<close> reads back). Nothing here computes with
  floats: their arithmetic is a parameter of the operations that use it. A Python
  \<open>dict\<close> is an association list in insertion order; \<open>d[k] = v\<close> is
  \<open>AList.update k v d\<close>, which overwrites in place or appends, as the dictionary does.
\<close>

datatype json =
    JNull
  | JBool bool
  | JInt int
  | JFloat rat
  | JNonFinite
  | JStr string
  | JArr "json list"
  | JObj "(string \<times> json) list"

type_synonym dict = "(string \<times> json) list"

datatype error = JSONDecodeError | TypeError | OverflowError

text \<open>\<open>d.get(k)\<close> and \<open>d.get(k, default)\<close>.\<close>

definition dict_get :: "dict \<Rightarrow> string \<Rightarrow> json option" where
  "dict_get d k = map_of d k"

definition dict_get_default :: "dict \<Rightarrow> string \<Rightarrow> json \<Rightarrow> json" where
  "dict_get_default d k dflt = (case map_of d k of None \<Rightarrow> dflt | Some v \<Rightarrow> v)"

text \<open>\<open>d.update(other)\<close>: the pairs of \<open>other\<close> are stored one after the other.\<close>

definition dict_update :: "dict \<Rightarrow> dict \<Rightarrow> dict" where
  "dict_update d other = fold (\<lambda>kv acc. AList.update (fst kv) (snd kv) acc) other d"

text \<open>
  A file of the state directory holds either the serialisation of a JSON object
  (\<open>json.loads (json.dumps d) = d\<close> is taken for granted), or text that
  \<open>json.loads\<close> rejects, or the first \<open>n\<close> bytes of a serialisation that is still
  being written; the latter two do not parse. Valid JSON that is not an object is not
  a state file and is outside the model, and so are I/O failures other than a missing
  file. The directory is an association list from paths relative to the state
  directory to contents, in listing order; a missing directory is an empty one.
\<close>

datatype content = Doc dict | Garbage | Partial dict nat

type_synonym fs = "(string \<times> content) list"

definition exists_file :: "fs \<Rightarrow> string \<Rightarrow> bool" where
  "exists_file files p = (map_of files p \<noteq> None)"

text \<open>\<open>json.loads(path.read_text())\<close> on a file that exists.\<close>

fun loads :: "content \<Rightarrow> error + dict" where
  "loads (Doc d) = Inr d"
| "loads Garbage = Inl JSONDecodeError"
| "loads (Partial d n) = Inl JSONDecodeError"

definition write_text :: "string \<Rightarrow> dict \<Rightarrow> fs \<Rightarrow> fs" where
  "write_text p d files = AList.update p (Doc d) files"

text \<open>\<open>src.replace(dst)\<close>: the atomic rename of the operating system.\<close>

definition replace_file :: "string \<Rightarrow> string \<Rightarrow> fs \<Rightarrow> fs" where
  "replace_file src dst files =
     (case map_of files src of
        None \<Rightarrow> files
      | Some c \<Rightarrow> AList.update dst c (AList.delete src files))"

subsection \<open>Strings and paths\<close>

text \<open>Characters are ASCII; \<open>lower\<close> and \<open>title\<close> change the letters A to Z only.\<close>

definition upper_letters :: string where
  "upper_letters = ''ABCDEFGHIJKLMNOPQRSTUVWXYZ''"

definition lower_letters :: string where
  "lower_letters = ''abcdefghijklmnopqrstuvwxyz''"

definition lower_char :: "char \<Rightarrow> char" where
  "lower_char c = (case map_of (zip upper_letters lower_letters) c of None \<Rightarrow> c | Some l \<Rightarrow> l)"

definition upper_char :: "char \<Rightarrow> char" where
  "upper_char c = (case map_of (zip lower_letters upper_letters) c of None \<Rightarrow> c | Some u \<Rightarrow> u)"

definition lower :: "string \<Rightarrow> string" where
  "lower s = map lower_char s"

text \<open>\<open>str.title\<close>: a letter is upper case after a non-letter and lower case after a letter.\<close>

fun title_from :: "bool \<Rightarrow> string \<Rightarrow> string" where
  "title_from prev_cased [] = []"
| "title_from prev_cased (c # cs) =
     (if c \<in> set lower_letters then
        (if prev_cased then c else upper_char c) # title_from True cs
      else if c \<in> set upper_letters then
        (if prev_cased then lower_char c else c) # title_from True cs
      else c # title_from False cs)"

definition title :: "string \<Rightarrow> string" where
  "title s = title_from False s"

definition replace_char :: "char \<Rightarrow> char \<Rightarrow> string \<Rightarrow> string" where
  "replace_char a b s = map (\<lambda>c. if c = a then b else c) s"

text \<open>\<open>x in s\<close> for strings: \<open>x\<close> occurs in \<open>s\<close> as a contiguous block.\<close>

fun starts_with :: "string \<Rightarrow> string \<Rightarrow> bool" where
  "starts_with s [] = True"
| "starts_with [] (x # xs) = False"
| "starts_with (c # cs) (x # xs) = (c = x \<and> starts_with cs xs)"

fun contains :: "string \<Rightarrow> string \<Rightarrow> bool" where
  "contains [] x = (x = [])"
| "contains (c # cs) x = (starts_with (c # cs) x \<or> contains cs x)"

text \<open>
  \<open>pathlib\<close>: the name of a path is what follows its last separator; the suffix of a
  name starts at its last dot, unless that dot is the first or the last character.
\<close>

definition path_name :: "string \<Rightarrow> string" where
  "path_name p = rev (takeWhile (\<lambda>c. c \<noteq> CHR ''/'') (rev p))"

definition path_parent :: "string \<Rightarrow> string" where
  "path_parent p = rev (dropWhile (\<lambda>c. c \<noteq> CHR ''/'') (rev p))"

definition name_suffix :: "string \<Rightarrow> string" where
  "name_suffix n =
     (let ext = rev (takeWhile (\<lambda>c. c \<noteq> CHR ''.'') (rev n))
      in if CHR ''.'' \<in> set n \<and> ext \<noteq> [] \<and> Suc (length ext) < length n
         then CHR ''.'' # ext else [])"

definition stem :: "string \<Rightarrow> string" where
  "stem p = (let n = path_name p in take (length n - length (name_suffix n)) n)"

definition with_suffix :: "string \<Rightarrow> string \<Rightarrow> string" where
  "with_suffix p sfx =
     (let n = path_name p
      in path_parent p @ take (length n - length (name_suffix n)) n @ sfx)"

section \<open>The state writer (bot\_state.py)\<close>

text \<open>
  A \<open>BotStateWriter\<close> object keeps its identifier, its display name and the
  dictionary \<open>_default_state\<close>, which some methods mutate. Every reading of the
  clock (\<open>datetime.now(timezone.utc).isoformat()\<close>) is a parameter of the operation
  that takes it.
\<close>

record writer =
  bot_id :: string
  bot_name :: string
  default_state :: dict

definition state_file :: "string \<Rightarrow> string" where
  "state_file bid = bid @ ''.json''"

definition initial_default_state :: "string \<Rightarrow> string \<Rightarrow> dict" where
  "initial_default_state bid name =
     [(''bot_id'', JStr bid),
      (''bot_name'', JStr name),
      (''status'', JStr ''initializing''),
      (''status_color'', JStr ''yellow''),
      (''pnl_total'', JFloat 0),
      (''pnl_24h'', JFloat 0),
      (''trades_total'', JInt 0),
      (''trades_24h'', JInt 0),
      (''position'', JNull),
      (''last_update'', JNull),
      (''last_error'', JNull),
      (''uptime_seconds'', JInt 0),
      (''version'', JStr ''1.0.0'')]"

text \<open>
  \<open>_write\<close>: stamp \<open>last_update\<close> on the dictionary it is given (the caller sees the
  stamp), write the document to the temporary file, rename it over the state file.
\<close>

definition temp_file :: "string \<Rightarrow> string" where
  "temp_file bid = with_suffix (state_file bid) ''.tmp''"

definition write_state :: "writer \<Rightarrow> dict \<Rightarrow> string \<Rightarrow> fs \<Rightarrow> dict \<times> fs" where
  "write_state w state now files =
     (let state' = AList.update ''last_update'' (JStr now) state
      in (state',
          replace_file (temp_file (bot_id w)) (state_file (bot_id w))
            (write_text (temp_file (bot_id w)) state' files)))"

text \<open>
  The same persist, step by step: \<open>write_text\<close> is not atomic, so the temporary file
  is seen with the first \<open>0, 1, \<dots>, k - 1\<close> bytes of the document before it is
  complete (\<open>k\<close> is the number of such moments an observer gets); the rename is one
  step. The list holds every state of the directory after the call has started.
\<close>

definition write_text_steps :: "string \<Rightarrow> dict \<Rightarrow> nat \<Rightarrow> fs \<Rightarrow> fs list" where
  "write_text_steps p d k files =
     map (\<lambda>n. AList.update p (Partial d n) files) [0..<k] @ [write_text p d files]"

definition write_steps :: "writer \<Rightarrow> dict \<Rightarrow> string \<Rightarrow> nat \<Rightarrow> fs \<Rightarrow> fs list" where
  "write_steps w state now k files =
     (let state' = AList.update ''last_update'' (JStr now) state
      in write_text_steps (temp_file (bot_id w)) state' k files @
         [replace_file (temp_file (bot_id w)) (state_file (bot_id w))
            (write_text (temp_file (bot_id w)) state' files)])"

text \<open>\<open>__init__\<close>; \<open>bot_name or bot_id\<close> takes the identifier for \<open>None\<close> and for the empty name.\<close>

definition init :: "string \<Rightarrow> string option \<Rightarrow> string \<Rightarrow> fs \<Rightarrow> writer \<times> fs" where
  "init bid name now files =
     (let nm = (case name of None \<Rightarrow> bid | Some n \<Rightarrow> if n = [] then bid else n);
          w = \<lparr>bot_id = bid, bot_name = nm, default_state = initial_default_state bid nm\<rparr>
      in if \<not> exists_file files (state_file bid)
         then (case write_state w (default_state w) now files of
                 (d, files') \<Rightarrow> (w\<lparr>default_state := d\<rparr>, files'))
         else (w, files))"

definition color_map :: "(string \<times> string) list" where
  "color_map =
     [(''running'', ''green''),
      (''active'', ''green''),
      (''initializing'', ''yellow''),
      (''paused'', ''yellow''),
      (''stopped'', ''red''),
      (''error'', ''red''),
      (''offline'', ''gray'')]"

text \<open>
  \<open>color_map.get(status, "yellow")\<close>: a list or an object cannot be hashed and raises
  \<open>TypeError\<close>; any other value that is not a key gives the default.
\<close>

fun color_map_get :: "json \<Rightarrow> error + string" where
  "color_map_get (JStr s) =
     Inr (case map_of color_map s of None \<Rightarrow> ''yellow'' | Some c \<Rightarrow> c)"
| "color_map_get (JArr xs) = Inl TypeError"
| "color_map_get (JObj kvs) = Inl TypeError"
| "color_map_get v = Inr ''yellow''"

text \<open>The record \<open>update\<close> starts from: a copy of the defaults, overlaid with the file.\<close>

definition read_current :: "writer \<Rightarrow> fs \<Rightarrow> error + dict" where
  "read_current w files =
     (case map_of files (state_file (bot_id w)) of
        None \<Rightarrow> Inr (default_state w)
      | Some c \<Rightarrow>
          (case loads c of
             Inl e \<Rightarrow> Inl e
           | Inr d \<Rightarrow> Inr (dict_update (default_state w) d)))"

definition update :: "writer \<Rightarrow> dict \<Rightarrow> string \<Rightarrow> fs \<Rightarrow> error + (dict \<times> fs)" where
  "update w updates now files =
     (case read_current w files of
        Inl e \<Rightarrow> Inl e
      | Inr current0 \<Rightarrow>
          (let current = dict_update current0 updates
           in case color_map_get (dict_get_default current ''status'' (JStr ''unknown'')) of
                Inl e \<Rightarrow> Inl e
              | Inr color \<Rightarrow>
                  Inr (write_state w (AList.update ''status_color'' (JStr color) current) now files)))"

text \<open>\<open>if extra_fields:\<close> skips \<open>None\<close> and the empty dictionary alike.\<close>

definition set_running :: "writer \<Rightarrow> dict option \<Rightarrow> string \<Rightarrow> fs \<Rightarrow> error + (dict \<times> fs)" where
  "set_running w extra_fields now files =
     update w
       (case extra_fields of
          None \<Rightarrow> [(''status'', JStr ''running'')]
        | Some extra \<Rightarrow> dict_update [(''status'', JStr ''running'')] extra)
       now files"

definition set_error :: "writer \<Rightarrow> string \<Rightarrow> string \<Rightarrow> fs \<Rightarrow> error + (dict \<times> fs)" where
  "set_error w error_message now files =
     update w [(''status'', JStr ''error''), (''last_error'', JStr error_message)] now files"

definition set_paused :: "writer \<Rightarrow> string \<Rightarrow> fs \<Rightarrow> error + (dict \<times> fs)" where
  "set_paused w now files = update w [(''status'', JStr ''paused'')] now files"

definition set_stopped :: "writer \<Rightarrow> string \<Rightarrow> fs \<Rightarrow> error + (dict \<times> fs)" where
  "set_stopped w now files = update w [(''status'', JStr ''stopped'')] now files"

text \<open>
  \<open>update_position\<close>: \<open>opened_at\<close> is a clock reading of its own, taken before the
  one of \<open>_write\<close>.
\<close>

definition update_position ::
  "writer \<Rightarrow> string option \<Rightarrow> rat \<Rightarrow> rat option \<Rightarrow> string \<Rightarrow> string \<Rightarrow> fs \<Rightarrow> error + (dict \<times> fs)" where
  "update_position w side sz entry_price now_opened now files =
     update w
       [(''position'',
         (case side of
            None \<Rightarrow> JNull
          | Some s \<Rightarrow>
              JObj [(''side'', JStr s),
                    (''size'', JFloat sz),
                    (''entry_price'', (case entry_price of None \<Rightarrow> JNull | Some p \<Rightarrow> JFloat p)),
                    (''opened_at'', JStr now_opened)]))]
       now files"

text \<open>
  The float arithmetic of the machine, which the scripts use and do not define:
  \<open>fadd x y\<close> is the double that \<open>x + y\<close> evaluates to for finite doubles \<open>x\<close> and
  \<open>y\<close> (the rounded sum), or \<open>None\<close> when that is an infinity; \<open>itof i\<close> is
  \<open>float(i)\<close>, or \<open>None\<close> when the conversion raises \<open>OverflowError\<close>.
\<close>

record float_ops =
  fadd :: "rat \<Rightarrow> rat \<Rightarrow> rat option"
  itof :: "int \<Rightarrow> rat option"

text \<open>The sum of two floats, each finite (\<open>Some\<close>) or not: a non-finite operand gives a
  non-finite sum.\<close>

definition float_sum :: "float_ops \<Rightarrow> rat option \<Rightarrow> rat option \<Rightarrow> json" where
  "float_sum fo a b =
     (case (a, b) of
        (Some x, Some y) \<Rightarrow> (case fadd fo x y of None \<Rightarrow> JNonFinite | Some r \<Rightarrow> JFloat r)
      | _ \<Rightarrow> JNonFinite)"

text \<open>
  \<open>x + y\<close> where \<open>y\<close> is a number, as in \<open>record_trade\<close>: a Boolean counts as 0 or 1,
  two integers add exactly, an integer meeting a float is converted first, two floats
  add in machine arithmetic, anything else on the left raises \<open>TypeError\<close>.
\<close>

fun as_number :: "json \<Rightarrow> (int + rat option) option" where
  "as_number (JInt i) = Some (Inl i)"
| "as_number (JBool b) = Some (Inl (if b then 1 else 0))"
| "as_number (JFloat r) = Some (Inr (Some r))"
| "as_number JNonFinite = Some (Inr None)"
| "as_number v = None"

definition py_add :: "float_ops \<Rightarrow> json \<Rightarrow> json \<Rightarrow> error + json" where
  "py_add fo x y =
     (case (as_number x, as_number y) of
        (Some (Inl a), Some (Inl b)) \<Rightarrow> Inr (JInt (a + b))
      | (Some (Inl a), Some (Inr fb)) \<Rightarrow>
          (case itof fo a of
             None \<Rightarrow> Inl OverflowError
           | Some fa \<Rightarrow> Inr (float_sum fo (Some fa) fb))
      | (Some (Inr fa), Some (Inl b)) \<Rightarrow>
          (case itof fo b of
             None \<Rightarrow> Inl OverflowError
           | Some fb \<Rightarrow> Inr (float_sum fo fa (Some fb)))
      | (Some (Inr fa), Some (Inr fb)) \<Rightarrow> Inr (float_sum fo fa fb)
      | _ \<Rightarrow> Inl TypeError)"

text \<open>\<open>current[k] = current.get(k, 0) + y\<close>.\<close>

definition add_to_field :: "float_ops \<Rightarrow> string \<Rightarrow> json \<Rightarrow> dict \<Rightarrow> error + dict" where
  "add_to_field fo k y current =
     (case py_add fo (dict_get_default current k (JInt 0)) y of
        Inl e \<Rightarrow> Inl e
      | Inr v \<Rightarrow> Inr (AList.update k v current))"

definition bind_err :: "error + 'a \<Rightarrow> ('a \<Rightarrow> error + 'b) \<Rightarrow> error + 'b" where
  "bind_err r f = (case r of Inl e \<Rightarrow> Inl e | Inr x \<Rightarrow> f x)"

definition trade_fields ::
  "float_ops \<Rightarrow> rat \<Rightarrow> string \<Rightarrow> string \<Rightarrow> dict \<Rightarrow> error + dict" where
  "trade_fields fo pnl side now_trade current =
     bind_err (add_to_field fo ''trades_total'' (JInt 1) current) (\<lambda>c1.
     bind_err (add_to_field fo ''trades_24h'' (JInt 1) c1) (\<lambda>c2.
     bind_err (add_to_field fo ''pnl_total'' (JFloat pnl) c2) (\<lambda>c3.
     bind_err (add_to_field fo ''pnl_24h'' (JFloat pnl) c3) (\<lambda>c4.
     Inr (AList.update ''last_trade''
            (JObj [(''time'', JStr now_trade), (''pnl'', JFloat pnl), (''side'', JStr side)])
            c4)))))"

text \<open>
  \<open>record_trade\<close>: with a state file, \<open>current\<close> is the parsed file. Without one it is
  \<open>_default_state\<close> itself and not a copy, so the writer's defaults take the trade
  and the stamp too.
\<close>

definition record_trade ::
  "float_ops \<Rightarrow> writer \<Rightarrow> rat \<Rightarrow> string \<Rightarrow> string \<Rightarrow> string \<Rightarrow> fs \<Rightarrow>
     error + (writer \<times> dict \<times> fs)" where
  "record_trade fo w pnl side now_trade now files =
     (case map_of files (state_file (bot_id w)) of
        None \<Rightarrow>
          bind_err (trade_fields fo pnl side now_trade (default_state w)) (\<lambda>current.
            case write_state w current now files of
              (d, files') \<Rightarrow> Inr (w\<lparr>default_state := d\<rparr>, d, files'))
      | Some c \<Rightarrow>
          bind_err (loads c) (\<lambda>loaded.
          bind_err (trade_fields fo pnl side now_trade loaded) (\<lambda>current.
            case write_state w current now files of
              (d, files') \<Rightarrow> Inr (w, d, files'))))"

definition get_state :: "writer \<Rightarrow> fs \<Rightarrow> error + dict" where
  "get_state w files =
     (case map_of files (state_file (bot_id w)) of
        None \<Rightarrow> Inr (default_state w)
      | Some c \<Rightarrow> loads c)"

section \<open>The reconciler (reconcile\_state.py)\<close>

record proc_state =
  pid :: "int option"
  running :: bool
  started_at :: "string option"
  cmdline :: string

record file_state =
  status :: json
  last_update :: json
  file_mtime :: string

text \<open>A mismatch carries either the \<open>process\<close> key or the \<open>file_state\<close> key.\<close>

datatype detail = Process proc_state | File_State file_state

record mismatch =
  m_bot_id :: string
  issue :: string
  detail :: detail

record report =
  timestamp :: string
  processes_found :: nat
  state_files_found :: nat
  mismatches :: "mismatch list"
  fixed :: "string list"
  healthy :: bool

text \<open>\<open>_extract_bot_id\<close>, branch by branch.\<close>

definition extract_bot_id :: "string \<Rightarrow> string option" where
  "extract_bot_id cmd =
     (let cmdline_lower = lower cmd
      in if contains cmd ''mm_optimized_15m'' then Some ''mm_15m''
         else if contains cmd ''mm_optimized_1h'' then Some ''mm_1h''
         else if contains cmd ''bot_v1'' \<or>
                 (contains cmdline_lower ''python'' \<and>
                  (contains cmdline_lower ''long'' \<or> contains cmdline_lower ''short''))
         then (if contains cmdline_lower ''btc'' then
                 (if contains cmdline_lower ''long'' then Some ''btc_long_v1''
                  else if contains cmdline_lower ''short'' then Some ''btc_short_v1''
                  else None)
               else if contains cmdline_lower ''doge'' then
                 (if contains cmdline_lower ''long'' then Some ''doge_long_v1''
                  else if contains cmdline_lower ''short'' then Some ''doge_short_v1''
                  else None)
               else None)
         else if contains cmdline_lower ''hummingbot'' then Some ''hummingbot''
         else None)"

text \<open>
  \<open>get_file_states\<close>: \<open>glob("*.json")\<close> lists the files directly in the state
  directory whose name ends in \<open>.json\<close>; a file that does not parse is skipped. The
  modification time of a file is read from the operating system (\<open>mtime\<close>).
\<close>

definition glob_json :: "string \<Rightarrow> bool" where
  "glob_json p = (CHR ''/'' \<notin> set p \<and> drop (length p - 5) p = ''.json'')"

definition scan_file :: "(string \<Rightarrow> string) \<Rightarrow> string \<times> content \<Rightarrow>
    (string \<times> file_state) list \<Rightarrow> (string \<times> file_state) list" where
  "scan_file mtime entry states =
     (if glob_json (fst entry) then
        (case loads (snd entry) of
           Inl e \<Rightarrow> states
         | Inr data \<Rightarrow>
             AList.update (stem (fst entry))
               \<lparr>status = dict_get_default data ''status'' (JStr ''unknown''),
                last_update = dict_get_default data ''last_update'' JNull,
                file_mtime = mtime (fst entry)\<rparr>
               states)
      else states)"

definition get_file_states :: "(string \<Rightarrow> string) \<Rightarrow> fs \<Rightarrow> (string \<times> file_state) list" where
  "get_file_states mtime files = fold (scan_file mtime) files []"

definition created_state :: "string \<Rightarrow> proc_state \<Rightarrow> string \<Rightarrow> dict" where
  "created_state bid proc now =
     [(''bot_id'', JStr bid),
      (''bot_name'', JStr (title (replace_char (CHR ''_'') (CHR '' '') bid))),
      (''status'', JStr ''running''),
      (''status_color'', JStr ''green''),
      (''pid'', (case pid proc of None \<Rightarrow> JNull | Some n \<Rightarrow> JInt n)),
      (''started_at'', (case started_at proc of None \<Rightarrow> JNull | Some t \<Rightarrow> JStr t)),
      (''last_update'', JStr now),
      (''reconciled'', JBool True)]"

definition create_state_file :: "string \<Rightarrow> proc_state \<Rightarrow> string \<Rightarrow> fs \<Rightarrow> fs" where
  "create_state_file bid proc now files =
     write_text (state_file bid) (created_state bid proc now) files"

definition stopped_state :: "dict \<Rightarrow> string \<Rightarrow> dict" where
  "stopped_state state now =
     AList.update ''reconciled'' (JBool True)
       (AList.update ''last_update'' (JStr now)
         (AList.update ''status_color'' (JStr ''red'')
           (AList.update ''status'' (JStr ''stopped'') state)))"

text \<open>
  \<open>_update_state_to_stopped\<close> reads the clock only once the file has parsed; the
  Boolean tells whether it did.
\<close>

definition update_state_to_stopped :: "string \<Rightarrow> string \<Rightarrow> fs \<Rightarrow> fs \<times> bool" where
  "update_state_to_stopped bid now files =
     (case map_of files (state_file bid) of
        None \<Rightarrow> (files, False)
      | Some c \<Rightarrow>
          (case loads c of
             Inl e \<Rightarrow> (files, False)
           | Inr state \<Rightarrow> (write_text (state_file bid) (stopped_state state now) files, True)))"

text \<open>
  \<open>reconcile\<close>. The process map is what \<open>get_process_states\<close> returned. The clock
  \<open>clk\<close> gives the reading of the \<open>n\<close>-th call; the loops carry the report, the
  directory and the number of readings taken so far.
\<close>

definition check_process :: "bool \<Rightarrow> (nat \<Rightarrow> string) \<Rightarrow> (string \<times> file_state) list \<Rightarrow>
    string \<times> proc_state \<Rightarrow> report \<times> fs \<times> nat \<Rightarrow> report \<times> fs \<times> nat" where
  "check_process auto_fix clk file_states entry s =
     (case s of (rep, files, t) \<Rightarrow>
        if map_of file_states (fst entry) = None then
          (let rep' = rep\<lparr>mismatches := mismatches rep @
                            [\<lparr>m_bot_id = fst entry,
                              issue = ''running_but_no_state_file'',
                              detail = Process (snd entry)\<rparr>],
                          healthy := False\<rparr>
           in if auto_fix
              then (rep'\<lparr>fixed := fixed rep' @ [fst entry]\<rparr>,
                    create_state_file (fst entry) (snd entry) (clk t) files,
                    Suc t)
              else (rep', files, t))
        else (rep, files, t))"

definition says_running :: "json \<Rightarrow> bool" where
  "says_running st = (st = JStr ''running'' \<or> st = JStr ''active'')"

definition check_file :: "bool \<Rightarrow> (nat \<Rightarrow> string) \<Rightarrow> (string \<times> proc_state) list \<Rightarrow>
    string \<times> file_state \<Rightarrow> report \<times> fs \<times> nat \<Rightarrow> report \<times> fs \<times> nat" where
  "check_file auto_fix clk process_states entry s =
     (case s of (rep, files, t) \<Rightarrow>
        if map_of process_states (fst entry) = None then
          (if says_running (status (snd entry)) then
             (let rep' = rep\<lparr>mismatches := mismatches rep @
                               [\<lparr>m_bot_id = fst entry,
                                 issue = ''state_says_running_but_process_missing'',
                                 detail = File_State (snd entry)\<rparr>],
                             healthy := False\<rparr>
              in if auto_fix
                 then (case update_state_to_stopped (fst entry) (clk t) files of
                         (files', stamped) \<Rightarrow>
                           (rep'\<lparr>fixed := fixed rep' @ [fst entry]\<rparr>,
                            files',
                            if stamped then Suc t else t))
                 else (rep', files, t))
           else (rep, files, t))
        else (rep, files, t))"

definition reconcile_maps :: "bool \<Rightarrow> (nat \<Rightarrow> string) \<Rightarrow> (string \<times> proc_state) list \<Rightarrow>
    (string \<times> file_state) list \<Rightarrow> fs \<Rightarrow> report \<times> fs" where
  "reconcile_maps auto_fix clk process_states file_states files =
     (let rep = \<lparr>timestamp = clk 0,
                 processes_found = length process_states,
                 state_files_found = length file_states,
                 mismatches = [],
                 fixed = [],
                 healthy = True\<rparr>;
          s1 = fold (check_process auto_fix clk file_states) process_states (rep, files, 1);
          s2 = fold (check_file auto_fix clk process_states) file_states s1
      in (fst s2, fst (snd s2)))"

definition reconcile :: "bool \<Rightarrow> (nat \<Rightarrow> string) \<Rightarrow> (string \<Rightarrow> string) \<Rightarrow>
    (string \<times> proc_state) list \<Rightarrow> fs \<Rightarrow> report \<times> fs" where
  "reconcile auto_fix clk mtime process_states files =
     reconcile_maps auto_fix clk process_states (get_file_states mtime files) files"

section \<open>The colour mapping as the specification words it\<close>

text \<open>
  running and active are green, initializing and paused yellow, stopped and error
  red, offline gray, any other status yellow. A record satisfies the mapping when its
  \<open>status_color\<close> is the colour of its \<open>status\<close>; a status that is not a string has
  the default colour.
\<close>

definition spec_status_color :: "string \<Rightarrow> string" where
  "spec_status_color s =
     (if s = ''running'' \<or> s = ''active'' then ''green''
      else if s = ''initializing'' \<or> s = ''paused'' then ''yellow''
      else if s = ''stopped'' \<or> s = ''error'' then ''red''
      else if s = ''offline'' then ''gray''
      else ''yellow'')"

definition satisfies_color_mapping :: "dict \<Rightarrow> bool" where
  "satisfies_color_mapping d =
     (dict_get d ''status_color'' =
        Some (JStr (case dict_get d ''status'' of
                      Some (JStr s) \<Rightarrow> spec_status_color s
                    | _ \<Rightarrow> ''yellow'')))"

section \<open>Shorthand for the claims about the reconciler\<close>

text \<open>
  The two kinds of mismatch as \<open>reconcile\<close> builds them, the conditions under which
  it records them, and the relation between the directory before and after a run
  that every changed file holds a record that satisfies the colour mapping.
\<close>

definition no_state_file_mismatch :: "string \<times> proc_state \<Rightarrow> mismatch" where
  "no_state_file_mismatch e =
     \<lparr>m_bot_id = fst e, issue = ''running_but_no_state_file'', detail = Process (snd e)\<rparr>"

definition process_missing_mismatch :: "string \<times> file_state \<Rightarrow> mismatch" where
  "process_missing_mismatch e =
     \<lparr>m_bot_id = fst e, issue = ''state_says_running_but_process_missing'',
      detail = File_State (snd e)\<rparr>"

definition lacks_file :: "(string \<times> file_state) list \<Rightarrow> string \<times> proc_state \<Rightarrow> bool" where
  "lacks_file fm e = (map_of fm (fst e) = None)"

definition lacks_process :: "(string \<times> proc_state) list \<Rightarrow> string \<times> file_state \<Rightarrow> bool" where
  "lacks_process pm e = (map_of pm (fst e) = None \<and> says_running (status (snd e)))"

definition changed_ok :: "fs \<Rightarrow> fs \<Rightarrow> bool" where
  "changed_ok files files' =
     (\<forall>q. map_of files' q = map_of files q \<or>
          (\<exists>d. map_of files' q = Some (Doc d) \<and> satisfies_color_mapping d))"

section \<open>The classifier as an ordered rule table\<close>

text \<open>
  The four branches of \<open>_extract_bot_id\<close> as rules, each a pattern on the command
  line with what the branch returns once the pattern has matched. The third branch
  looks for an asset and a direction and returns nothing when it finds none.
  \<open>first_match\<close> takes the first rule whose pattern matches.
\<close>

definition asset_direction_id :: "string \<Rightarrow> string option" where
  "asset_direction_id cmd =
     (if contains (lower cmd) ''btc'' then
        (if contains (lower cmd) ''long'' then Some ''btc_long_v1''
         else if contains (lower cmd) ''short'' then Some ''btc_short_v1''
         else None)
      else if contains (lower cmd) ''doge'' then
        (if contains (lower cmd) ''long'' then Some ''doge_long_v1''
         else if contains (lower cmd) ''short'' then Some ''doge_short_v1''
         else None)
      else None)"

definition third_rule_matches :: "string \<Rightarrow> bool" where
  "third_rule_matches cmd =
     (contains cmd ''bot_v1'' \<or>
      (contains (lower cmd) ''python'' \<and>
       (contains (lower cmd) ''long'' \<or> contains (lower cmd) ''short'')))"

definition classification_rules :: "((string \<Rightarrow> bool) \<times> (string \<Rightarrow> string option)) list" where
  "classification_rules =
     [(\<lambda>cmd. contains cmd ''mm_optimized_15m'', \<lambda>cmd. Some ''mm_15m''),
      (\<lambda>cmd. contains cmd ''mm_optimized_1h'', \<lambda>cmd. Some ''mm_1h''),
      (third_rule_matches, asset_direction_id),
      (\<lambda>cmd. contains (lower cmd) ''hummingbot'', \<lambda>cmd. Some ''hummingbot'')]"

definition first_match ::
  "((string \<Rightarrow> bool) \<times> (string \<Rightarrow> string option)) list \<Rightarrow> string \<Rightarrow> string option" where
  "first_match rules cmd =
     (case find (\<lambda>r. fst r cmd) rules of None \<Rightarrow> None | Some r \<Rightarrow> snd r cmd)"

section \<open>Paths and the persist step\<close>

lemma state_file_inj: "(state_file a = state_file b) = (a = b)"
  by (simp add: state_file_def)

lemma temp_file_last: "last (temp_file b) = CHR ''p''"
  by (simp add: temp_file_def with_suffix_def Let_def)

lemma state_file_last: "last (state_file b) = CHR ''n''"
  by (simp add: state_file_def)

lemma temp_file_neq_state_file: "temp_file a \<noteq> state_file b"
proof
  assume "temp_file a = state_file b"
  then have "last (temp_file a) = last (state_file b)" by simp
  then show False by (simp add: temp_file_last state_file_last)
qed

lemma path_parent_append:
  assumes "CHR ''/'' \<notin> set n"
  shows "path_parent (path_parent p @ n) = path_parent p"
proof -
  have "dropWhile (\<lambda>c. c \<noteq> CHR ''/'') (rev n @ dropWhile (\<lambda>c. c \<noteq> CHR ''/'') (rev p))
        = dropWhile (\<lambda>c. c \<noteq> CHR ''/'') (dropWhile (\<lambda>c. c \<noteq> CHR ''/'') (rev p))"
    using assms by (intro dropWhile_append2) auto
  then show ?thesis by (simp add: path_parent_def)
qed

lemma path_name_no_sep: "CHR ''/'' \<notin> set (path_name p)"
proof -
  have "\<forall>c \<in> set (takeWhile (\<lambda>c. c \<noteq> CHR ''/'') (rev p)). c \<noteq> CHR ''/''"
    by (metis set_takeWhileD)
  then show ?thesis by (auto simp: path_name_def)
qed

lemma temp_file_parent: "path_parent (temp_file b) = path_parent (state_file b)"
proof -
  let ?n = "path_name (state_file b)"
  have "CHR ''/'' \<notin> set (take (length ?n - length (name_suffix ?n)) ?n @ ''.tmp'')"
    using path_name_no_sep [of "state_file b"] by (auto dest: in_set_takeD)
  from path_parent_append [OF this, of "state_file b"] show ?thesis
    by (simp add: temp_file_def with_suffix_def Let_def)
qed

lemma map_of_replace_written:
  "map_of (replace_file src dst (write_text src d files)) dst = Some (Doc d)"
  by (simp add: replace_file_def write_text_def AList.update_conv')

lemma map_of_write_state:
  "map_of (snd (write_state w st now files)) (state_file (bot_id w))
     = Some (Doc (AList.update ''last_update'' (JStr now) st))"
  by (simp add: write_state_def Let_def map_of_replace_written)

lemma fst_write_state: "fst (write_state w st now files) = AList.update ''last_update'' (JStr now) st"
  by (simp add: write_state_def Let_def)

lemma last_write_steps: "last (write_steps w st now k files) = snd (write_state w st now files)"
  by (simp add: write_steps_def write_state_def Let_def)

lemma write_text_steps_other:
  assumes "s \<in> set (write_text_steps p d k files)" "q \<noteq> p"
  shows "map_of s q = map_of files q"
  using assms by (auto simp: write_text_steps_def write_text_def AList.update_conv')

lemma write_steps_target:
  assumes "s \<in> set (write_steps w st now k files)"
  shows "map_of s (state_file (bot_id w)) = map_of files (state_file (bot_id w)) \<or>
         map_of s (state_file (bot_id w)) = Some (Doc (AList.update ''last_update'' (JStr now) st))"
proof -
  let ?d = "AList.update ''last_update'' (JStr now) st"
  let ?tmp = "temp_file (bot_id w)"
  from assms consider
      (writing) "s \<in> set (write_text_steps ?tmp ?d k files)"
    | (renamed) "s = replace_file ?tmp (state_file (bot_id w)) (write_text ?tmp ?d files)"
    by (auto simp: write_steps_def Let_def)
  then show ?thesis
  proof cases
    case writing
    from write_text_steps_other [OF this, of "state_file (bot_id w)"] temp_file_neq_state_file
    show ?thesis by metis
  next
    case renamed
    then show ?thesis by (simp add: map_of_replace_written)
  qed
qed

lemma update_is_write:
  assumes "update w u now files = Inr (d, files')"
  shows "\<exists>st. write_state w st now files = (d, files')"
  using assms by (auto simp: update_def Let_def split: sum.splits)

lemma record_trade_is_write:
  assumes "record_trade fo w pnl side t1 now files = Inr (w', d, files')"
  shows "\<exists>st. write_state w st now files = (d, files')"
  using assms
  by (auto simp: record_trade_def bind_err_def split: option.splits sum.splits prod.splits)

section \<open>Claims about the state writer\<close>

text \<open>
  C7. Every persist of the state writer goes through \<open>_write\<close>: the temporary path
  lies in the directory of the state file and differs from it; in every state of the
  directory from the start of the call to its end, the state file holds either what
  it held before or the complete new document; the last state is the result of the
  call and holds the new document. \<open>update\<close> (and so every derived setter) and
  \<open>record_trade\<close> persist through this step and no other.
\<close>

theorem write_is_atomic_replace:
  "path_parent (temp_file (bot_id w)) = path_parent (state_file (bot_id w)) \<and>
   temp_file (bot_id w) \<noteq> state_file (bot_id w) \<and>
   (\<forall>s \<in> set (write_steps w st now k files).
      map_of s (state_file (bot_id w)) = map_of files (state_file (bot_id w)) \<or>
      map_of s (state_file (bot_id w)) = Some (Doc (AList.update ''last_update'' (JStr now) st))) \<and>
   last (write_steps w st now k files) = snd (write_state w st now files) \<and>
   map_of (snd (write_state w st now files)) (state_file (bot_id w))
     = Some (Doc (AList.update ''last_update'' (JStr now) st)) \<and>
   (\<forall>u d files'. update w u now files = Inr (d, files') \<longrightarrow>
      (\<exists>st'. write_state w st' now files = (d, files'))) \<and>
   (\<forall>fo pnl side t1 w' d files'.
      record_trade fo w pnl side t1 now files = Inr (w', d, files') \<longrightarrow>
      (\<exists>st'. write_state w st' now files = (d, files')))"
  using temp_file_parent temp_file_neq_state_file write_steps_target last_write_steps
    map_of_write_state update_is_write record_trade_is_write
  by (intro conjI allI impI ballI) blast+

lemma tmp_b: "temp_file ''b'' = ''b.tmp''"
  by (simp add: temp_file_def with_suffix_def state_file_def path_name_def path_parent_def name_suffix_def Let_def)

theorem write_is_atomic_replace_witness:
  "[(''b.json'', Doc []), (''b.tmp'', Partial [(''last_update'', JStr ''t'')] 1)]
     \<in> set (write_steps \<lparr>bot_id = ''b'', bot_name = ''b'', default_state = []\<rparr> [] ''t'' 2 [(''b.json'', Doc [])]) \<and>
   map_of [(''b.json'', Doc []), (''b.tmp'', Partial [(''last_update'', JStr ''t'')] 1)] ''b.json''
     = map_of [(''b.json'', Doc [])] ''b.json'' \<and>
   update \<lparr>bot_id = ''b'', bot_name = ''b'', default_state = []\<rparr> [] ''t'' [(''b.json'', Doc [])]
     = Inr ([(''status_color'', JStr ''yellow''), (''last_update'', JStr ''t'')],
            [(''b.json'', Doc [(''status_color'', JStr ''yellow''), (''last_update'', JStr ''t'')])]) \<and>
   (\<exists>st'. write_state \<lparr>bot_id = ''b'', bot_name = ''b'', default_state = []\<rparr> st' ''t'' [(''b.json'', Doc [])]
          = ([(''status_color'', JStr ''yellow''), (''last_update'', JStr ''t'')],
             [(''b.json'', Doc [(''status_color'', JStr ''yellow''), (''last_update'', JStr ''t'')])]))"
proof -
  let ?w = "\<lparr>bot_id = ''b'', bot_name = ''b'', default_state = []\<rparr>"
  let ?f = "[(''b.json'', Doc [])]"
  have two: "[0..<2] = [0, 1]" by (simp add: upt_rec)
  have mem: "[(''b.json'', Doc []), (''b.tmp'', Partial [(''last_update'', JStr ''t'')] 1)]
     \<in> set (write_steps ?w [] ''t'' 2 ?f)"
    by (simp add: write_steps_def write_text_steps_def write_text_def tmp_b two Let_def)
  have upd: "update ?w [] ''t'' ?f
     = Inr ([(''status_color'', JStr ''yellow''), (''last_update'', JStr ''t'')],
            [(''b.json'', Doc [(''status_color'', JStr ''yellow''), (''last_update'', JStr ''t'')])])"
    by (simp add: update_def read_current_def dict_update_def dict_get_default_def write_state_def
        write_text_def replace_file_def tmp_b state_file_def color_map_def Let_def)
  from write_is_atomic_replace [of ?w "[]" "''t''" 2 ?f] mem upd show ?thesis
    by (simp add: state_file_def)
qed

lemma color_map_get_str: "color_map_get (JStr s) = Inr (spec_status_color s)"
  by (simp add: color_map_def spec_status_color_def)

lemma map_of_dict_update:
  "map_of (dict_update d other) k =
     (case map_of (rev other) k of None \<Rightarrow> map_of d k | Some v \<Rightarrow> Some v)"
proof (induction other arbitrary: d)
  case Nil
  then show ?case by (simp add: dict_update_def)
next
  case (Cons kv other)
  have step: "dict_update d (kv # other) = dict_update (AList.update (fst kv) (snd kv) d) other"
    by (simp add: dict_update_def)
  show ?case
    unfolding step Cons.IH
    by (cases kv) (auto simp: AList.update_conv' map_add_def split: option.splits)
qed

lemma init_creates:
  assumes "\<not> exists_file files (state_file bid)"
  shows "map_of (snd (init bid name now files)) (state_file bid) =
           Some (Doc (AList.update ''last_update'' (JStr now)
              (initial_default_state bid (case name of None \<Rightarrow> bid | Some n \<Rightarrow> if n = [] then bid else n))))"
    and "fst (init bid name now files) =
           \<lparr>bot_id = bid,
            bot_name = (case name of None \<Rightarrow> bid | Some n \<Rightarrow> if n = [] then bid else n),
            default_state = AList.update ''last_update'' (JStr now)
              (initial_default_state bid (case name of None \<Rightarrow> bid | Some n \<Rightarrow> if n = [] then bid else n))\<rparr>"
  using assms
  by (simp_all add: init_def Let_def write_state_def map_of_replace_written split: prod.splits)

text \<open>
  C9. Constructing a writer for a bot whose state file does not exist creates the
  file at once: it holds the default record (status \<open>initializing\<close>, colour
  \<open>yellow\<close>, zero P\&L and trade counters, null position and error) with
  \<open>last_update\<close> set to the clock reading of the construction.
\<close>

theorem init_creates_default_file:
  "\<not> exists_file files (state_file bid) \<longrightarrow>
     exists_file (snd (init bid name now files)) (state_file bid) \<and>
     map_of (snd (init bid name now files)) (state_file bid) =
       Some (Doc
         [(''bot_id'', JStr bid),
          (''bot_name'', JStr (case name of None \<Rightarrow> bid | Some n \<Rightarrow> if n = [] then bid else n)),
          (''status'', JStr ''initializing''),
          (''status_color'', JStr ''yellow''),
          (''pnl_total'', JFloat 0),
          (''pnl_24h'', JFloat 0),
          (''trades_total'', JInt 0),
          (''trades_24h'', JInt 0),
          (''position'', JNull),
          (''last_update'', JStr now),
          (''last_error'', JNull),
          (''uptime_seconds'', JInt 0),
          (''version'', JStr ''1.0.0'')])"
proof
  assume a: "\<not> exists_file files (state_file bid)"
  from init_creates(1) [OF a, of name now] show
    "exists_file (snd (init bid name now files)) (state_file bid) \<and>
     map_of (snd (init bid name now files)) (state_file bid) =
       Some (Doc
         [(''bot_id'', JStr bid),
          (''bot_name'', JStr (case name of None \<Rightarrow> bid | Some n \<Rightarrow> if n = [] then bid else n)),
          (''status'', JStr ''initializing''),
          (''status_color'', JStr ''yellow''),
          (''pnl_total'', JFloat 0),
          (''pnl_24h'', JFloat 0),
          (''trades_total'', JInt 0),
          (''trades_24h'', JInt 0),
          (''position'', JNull),
          (''last_update'', JStr now),
          (''last_error'', JNull),
          (''uptime_seconds'', JInt 0),
          (''version'', JStr ''1.0.0'')])"
    by (simp add: exists_file_def initial_default_state_def)
qed

theorem init_creates_default_file_witness:
  "\<not> exists_file [(''other.json'', Garbage)] (state_file ''mm_1h'') \<and>
   exists_file (snd (init ''mm_1h'' (Some ''Market Maker 1H'') ''2024-01-01T00:00:00+00:00'' [(''other.json'', Garbage)]))
     (state_file ''mm_1h'') \<and>
   map_of (snd (init ''mm_1h'' (Some ''Market Maker 1H'') ''2024-01-01T00:00:00+00:00'' [(''other.json'', Garbage)]))
     ''mm_1h.json'' =
       Some (Doc
         [(''bot_id'', JStr ''mm_1h''),
          (''bot_name'', JStr ''Market Maker 1H''),
          (''status'', JStr ''initializing''),
          (''status_color'', JStr ''yellow''),
          (''pnl_total'', JFloat 0),
          (''pnl_24h'', JFloat 0),
          (''trades_total'', JInt 0),
          (''trades_24h'', JInt 0),
          (''position'', JNull),
          (''last_update'', JStr ''2024-01-01T00:00:00+00:00''),
          (''last_error'', JNull),
          (''uptime_seconds'', JInt 0),
          (''version'', JStr ''1.0.0'')])"
proof -
  have h: "\<not> exists_file [(''other.json'', Garbage)] (state_file ''mm_1h'')"
    by (simp add: exists_file_def state_file_def)
  from h init_creates_default_file
         [of "[(''other.json'', Garbage)]" "''mm_1h''" "Some ''Market Maker 1H''" "''2024-01-01T00:00:00+00:00''"]
  show ?thesis by (simp add: state_file_def)
qed








lemma map_of_rev_distinct: "distinct (map fst xs) \<Longrightarrow> map_of (rev xs) = map_of xs"
  by (rule map_of_inject_set [THEN iffD2]) (simp_all add: rev_map [symmetric])

lemma update_result:
  assumes "update w u now files = Inr (d, files')"
  shows "\<exists>current0 color.
           read_current w files = Inr current0 \<and>
           color_map_get (dict_get_default (dict_update current0 u) ''status'' (JStr ''unknown''))
             = Inr color \<and>
           d = AList.update ''last_update'' (JStr now)
                 (AList.update ''status_color'' (JStr color) (dict_update current0 u)) \<and>
           map_of files' (state_file (bot_id w)) = Some (Doc d)"
proof -
  from assms obtain current0 color where
    rc: "read_current w files = Inr current0"
    and col: "color_map_get (dict_get_default (dict_update current0 u) ''status'' (JStr ''unknown''))
             = Inr color"
    and ws: "write_state w (AList.update ''status_color'' (JStr color) (dict_update current0 u)) now files
             = (d, files')"
    by (auto simp: update_def Let_def split: sum.splits)
  from ws fst_write_state [of w _ now files] map_of_write_state [of w _ now files]
  have "d = AList.update ''last_update'' (JStr now)
                 (AList.update ''status_color'' (JStr color) (dict_update current0 u))"
    "map_of files' (state_file (bot_id w)) = Some (Doc d)"
    by (metis fst_conv, metis fst_conv snd_conv)
  with rc col show ?thesis by blast
qed

lemma satisfies_after_color:
  assumes "color_map_get (dict_get_default c ''status'' (JStr ''unknown'')) = Inr color"
  shows "satisfies_color_mapping
           (AList.update ''last_update'' (JStr now) (AList.update ''status_color'' (JStr color) c))"
proof (cases "map_of c ''status''")
  case None
  with assms show ?thesis
    by (simp add: satisfies_color_mapping_def dict_get_def dict_get_default_def
        AList.update_conv' color_map_def)
next
  case (Some v)
  with assms show ?thesis
    by (cases v)
       (simp_all add: satisfies_color_mapping_def dict_get_def dict_get_default_def
          AList.update_conv' color_map_get_str del: color_map_get.simps(1))
qed

lemma update_satisfies:
  assumes "update w u now files = Inr (d, files')"
  shows "satisfies_color_mapping d \<and> map_of files' (state_file (bot_id w)) = Some (Doc d)"
  using update_result [OF assms] satisfies_after_color by blast

lemma update_status_frame:
  assumes onfile: "map_of files (state_file (bot_id w)) = Some (Doc old)"
    and dist: "distinct (map fst old)"
  shows "\<exists>d files'. update w [(''status'', JStr st)] now files = Inr (d, files') \<and>
           (\<forall>k. k \<noteq> ''status'' \<and> k \<noteq> ''status_color'' \<and> k \<noteq> ''last_update'' \<longrightarrow>
              dict_get d k =
                (case dict_get old k of None \<Rightarrow> dict_get (default_state w) k | Some v \<Rightarrow> Some v)) \<and>
           dict_get d ''status'' = Some (JStr st) \<and>
           map_of files' (state_file (bot_id w)) = Some (Doc d)"
proof -
  let ?base = "dict_update (default_state w) old"
  let ?c = "dict_update ?base [(''status'', JStr st)]"
  let ?col = "spec_status_color st"
  let ?d = "AList.update ''last_update'' (JStr now) (AList.update ''status_color'' (JStr ?col) ?c)"
  have rc: "read_current w files = Inr ?base"
    using onfile by (simp add: read_current_def)
  have st: "dict_get_default ?c ''status'' (JStr ''unknown'') = JStr st"
    by (simp add: dict_get_default_def map_of_dict_update)
  have upd: "update w [(''status'', JStr st)] now files = Inr (write_state w (AList.update ''status_color'' (JStr ?col) ?c) now files)"
    using rc st by (simp add: update_def Let_def color_map_get_str del: color_map_get.simps(1))
  have eq: "write_state w (AList.update ''status_color'' (JStr ?col) ?c) now files
      = (?d, snd (write_state w (AList.update ''status_color'' (JStr ?col) ?c) now files))"
    using fst_write_state [of w _ now files] by (metis prod.collapse)
  have frame: "dict_get ?d k =
      (case dict_get old k of None \<Rightarrow> dict_get (default_state w) k | Some v \<Rightarrow> Some v)"
    if "k \<noteq> ''status'' \<and> k \<noteq> ''status_color'' \<and> k \<noteq> ''last_update''" for k
    using that dist
    by (simp add: dict_get_def AList.update_conv' map_of_dict_update map_of_rev_distinct
        split: option.splits)
  have stat: "dict_get ?d ''status'' = Some (JStr st)"
    by (simp add: dict_get_def AList.update_conv' map_of_dict_update)
  from upd eq frame stat map_of_write_state [of w _ now files] show ?thesis
    by (metis (no_types, lifting))
qed


text \<open>
  C6, as stated, fails: \<open>update\<close> starts from a copy of the defaults and lays the
  file over it, so a field that the stored record lacks comes out with its default
  value. The record the reconciler writes for a running process has no
  \<open>pnl_total\<close>; after an update of the status alone it has \<open>pnl_total = 0.0\<close>.
\<close>

theorem update_status_only_counterexample:
  "map_of [(''mm_1h.json'',
            Doc (created_state ''mm_1h''
                   \<lparr>pid = Some 4242, running = True, started_at = Some ''2024-01-01T00:00:00+00:00'',
                    cmdline = ''python mm_optimized_1h.py''\<rparr> ''t0''))]
     (state_file ''mm_1h'')
     = Some (Doc (created_state ''mm_1h''
                   \<lparr>pid = Some 4242, running = True, started_at = Some ''2024-01-01T00:00:00+00:00'',
                    cmdline = ''python mm_optimized_1h.py''\<rparr> ''t0'')) \<and>
   dict_get (created_state ''mm_1h''
               \<lparr>pid = Some 4242, running = True, started_at = Some ''2024-01-01T00:00:00+00:00'',
                cmdline = ''python mm_optimized_1h.py''\<rparr> ''t0'') ''pnl_total'' = None \<and>
   \<not> isl (update
            (fst (init ''mm_1h'' None ''t1''
                    [(''mm_1h.json'',
                      Doc (created_state ''mm_1h''
                             \<lparr>pid = Some 4242, running = True,
                              started_at = Some ''2024-01-01T00:00:00+00:00'',
                              cmdline = ''python mm_optimized_1h.py''\<rparr> ''t0''))]))
            [(''status'', JStr ''paused'')] ''t2''
            [(''mm_1h.json'',
              Doc (created_state ''mm_1h''
                     \<lparr>pid = Some 4242, running = True, started_at = Some ''2024-01-01T00:00:00+00:00'',
                      cmdline = ''python mm_optimized_1h.py''\<rparr> ''t0''))]) \<and>
   dict_get
     (fst (projr (update
            (fst (init ''mm_1h'' None ''t1''
                    [(''mm_1h.json'',
                      Doc (created_state ''mm_1h''
                             \<lparr>pid = Some 4242, running = True,
                              started_at = Some ''2024-01-01T00:00:00+00:00'',
                              cmdline = ''python mm_optimized_1h.py''\<rparr> ''t0''))]))
            [(''status'', JStr ''paused'')] ''t2''
            [(''mm_1h.json'',
              Doc (created_state ''mm_1h''
                     \<lparr>pid = Some 4242, running = True, started_at = Some ''2024-01-01T00:00:00+00:00'',
                      cmdline = ''python mm_optimized_1h.py''\<rparr> ''t0''))])))
     ''pnl_total'' = Some (JFloat 0)"
  by (simp add: state_file_def created_state_def dict_get_def init_def exists_file_def Let_def
      update_def read_current_def dict_update_def initial_default_state_def
      dict_get_default_def color_map_def write_state_def)

text \<open>
  C6, amended. On a state file that parses, an update of the status alone (a
  string) returns; every field other than \<open>status\<close>, \<open>status_color\<close> and
  \<open>last_update\<close> that the stored record has keeps its value, and one it lacks has
  the value of the writer's default record. So \<open>pnl_total\<close>, \<open>pnl_24h\<close>,
  \<open>trades_total\<close>, \<open>trades_24h\<close>, \<open>position\<close> and \<open>last_error\<close> are unchanged
  wherever the stored record has them.
\<close>

theorem update_status_only_frame:
  "map_of files (state_file (bot_id w)) = Some (Doc old) \<and> distinct (map fst old) \<longrightarrow>
   (\<exists>d files'. update w [(''status'', JStr st)] now files = Inr (d, files') \<and>
      (\<forall>k. k \<noteq> ''status'' \<and> k \<noteq> ''status_color'' \<and> k \<noteq> ''last_update'' \<longrightarrow>
         dict_get d k =
           (case dict_get old k of None \<Rightarrow> dict_get (default_state w) k | Some v \<Rightarrow> Some v)) \<and>
      dict_get d ''status'' = Some (JStr st) \<and>
      map_of files' (state_file (bot_id w)) = Some (Doc d))"
  using update_status_frame by blast

theorem update_status_only_frame_witness:
  "map_of [(''b.json'', Doc [(''status'', JStr ''running''), (''pnl_total'', JFloat 12),
                             (''position'', JObj [(''side'', JStr ''long'')])])]
     (state_file (bot_id \<lparr>bot_id = ''b'', bot_name = ''b'',
                          default_state = initial_default_state ''b'' ''b''\<rparr>))
     = Some (Doc [(''status'', JStr ''running''), (''pnl_total'', JFloat 12),
                  (''position'', JObj [(''side'', JStr ''long'')])]) \<and>
   distinct (map fst [(''status'', JStr ''running''), (''pnl_total'', JFloat 12),
                      (''position'', JObj [(''side'', JStr ''long'')])]) \<and>
   ''pnl_total'' \<noteq> ''status'' \<and> ''pnl_total'' \<noteq> ''status_color'' \<and> ''pnl_total'' \<noteq> ''last_update'' \<and>
   (\<exists>d files'.
      update \<lparr>bot_id = ''b'', bot_name = ''b'', default_state = initial_default_state ''b'' ''b''\<rparr>
        [(''status'', JStr ''paused'')] ''t''
        [(''b.json'', Doc [(''status'', JStr ''running''), (''pnl_total'', JFloat 12),
                           (''position'', JObj [(''side'', JStr ''long'')])])]
        = Inr (d, files') \<and>
      dict_get d ''pnl_total'' = Some (JFloat 12) \<and>
      dict_get d ''position'' = Some (JObj [(''side'', JStr ''long'')]) \<and>
      dict_get d ''trades_total'' = Some (JInt 0) \<and>
      dict_get d ''status'' = Some (JStr ''paused''))"
proof -
  let ?old = "[(''status'', JStr ''running''), (''pnl_total'', JFloat 12),
               (''position'', JObj [(''side'', JStr ''long'')])]"
  let ?w = "\<lparr>bot_id = ''b'', bot_name = ''b'', default_state = initial_default_state ''b'' ''b''\<rparr>"
  have h: "map_of [(''b.json'', Doc ?old)] (state_file (bot_id ?w)) = Some (Doc ?old) \<and>
           distinct (map fst ?old)"
    by (simp add: state_file_def)
  from update_status_only_frame [of "[(''b.json'', Doc ?old)]" ?w ?old "''paused''" "''t''"] h
  obtain d files' where
    u: "update ?w [(''status'', JStr ''paused'')] ''t'' [(''b.json'', Doc ?old)] = Inr (d, files')"
    and fr: "\<forall>k. k \<noteq> ''status'' \<and> k \<noteq> ''status_color'' \<and> k \<noteq> ''last_update'' \<longrightarrow>
         dict_get d k =
           (case dict_get ?old k of None \<Rightarrow> dict_get (default_state ?w) k | Some v \<Rightarrow> Some v)"
    and st: "dict_get d ''status'' = Some (JStr ''paused'')"
    by blast
  from fr have "dict_get d ''pnl_total'' = Some (JFloat 12)"
    "dict_get d ''position'' = Some (JObj [(''side'', JStr ''long'')])"
    "dict_get d ''trades_total'' = Some (JInt 0)"
    by (simp_all add: dict_get_def initial_default_state_def)
  with u st h show ?thesis by auto
qed

section \<open>Claims about the reconciler\<close>

lemma check_process_report:
  "mismatches (fst (check_process af clk fm e (rep, files, t)))
     = mismatches rep @ (if lacks_file fm e then [no_state_file_mismatch e] else [])"
  "fixed (fst (check_process af clk fm e (rep, files, t)))
     = fixed rep @ (if af \<and> lacks_file fm e then [fst e] else [])"
  "healthy (fst (check_process af clk fm e (rep, files, t)))
     = (healthy rep \<and> \<not> lacks_file fm e)"
  by (simp_all add: check_process_def Let_def lacks_file_def no_state_file_mismatch_def)

lemma check_file_report:
  "mismatches (fst (check_file af clk pm e (rep, files, t)))
     = mismatches rep @ (if lacks_process pm e then [process_missing_mismatch e] else [])"
  "fixed (fst (check_file af clk pm e (rep, files, t)))
     = fixed rep @ (if af \<and> lacks_process pm e then [fst e] else [])"
  "healthy (fst (check_file af clk pm e (rep, files, t)))
     = (healthy rep \<and> \<not> lacks_process pm e)"
  by (simp_all add: check_file_def Let_def lacks_process_def process_missing_mismatch_def
      split: prod.splits)

lemma loop1_report:
  "mismatches (fst (fold (check_process af clk fm) pm (rep, files, t)))
     = mismatches rep @ map no_state_file_mismatch (filter (lacks_file fm) pm) \<and>
   fixed (fst (fold (check_process af clk fm) pm (rep, files, t)))
     = fixed rep @ (if af then map fst (filter (lacks_file fm) pm) else []) \<and>
   healthy (fst (fold (check_process af clk fm) pm (rep, files, t)))
     = (healthy rep \<and> filter (lacks_file fm) pm = [])"
proof (induction pm arbitrary: rep files t)
  case Nil
  then show ?case by simp
next
  case (Cons e pm)
  obtain r' f' t' where step: "check_process af clk fm e (rep, files, t) = (r', f', t')"
    by (metis prod_cases3)
  from check_process_report [of af clk fm e rep files t] step
  have r': "mismatches r' = mismatches rep @ (if lacks_file fm e then [no_state_file_mismatch e] else [])"
    "fixed r' = fixed rep @ (if af \<and> lacks_file fm e then [fst e] else [])"
    "healthy r' = (healthy rep \<and> \<not> lacks_file fm e)"
    by simp_all
  from Cons.IH [of r' f' t'] r' show ?case
    by (simp add: step)
qed

lemma loop2_report:
  "mismatches (fst (fold (check_file af clk pm) fm (rep, files, t)))
     = mismatches rep @ map process_missing_mismatch (filter (lacks_process pm) fm) \<and>
   fixed (fst (fold (check_file af clk pm) fm (rep, files, t)))
     = fixed rep @ (if af then map fst (filter (lacks_process pm) fm) else []) \<and>
   healthy (fst (fold (check_file af clk pm) fm (rep, files, t)))
     = (healthy rep \<and> filter (lacks_process pm) fm = [])"
proof (induction fm arbitrary: rep files t)
  case Nil
  then show ?case by simp
next
  case (Cons e fm)
  obtain r' f' t' where step: "check_file af clk pm e (rep, files, t) = (r', f', t')"
    by (metis prod_cases3)
  from check_file_report [of af clk pm e rep files t] step
  have r': "mismatches r' = mismatches rep @ (if lacks_process pm e then [process_missing_mismatch e] else [])"
    "fixed r' = fixed rep @ (if af \<and> lacks_process pm e then [fst e] else [])"
    "healthy r' = (healthy rep \<and> \<not> lacks_process pm e)"
    by simp_all
  from Cons.IH [of r' f' t'] r' show ?case
    by (simp add: step)
qed

lemma reconcile_maps_report:
  "mismatches (fst (reconcile_maps af clk pm fm files))
     = map no_state_file_mismatch (filter (lacks_file fm) pm) @
       map process_missing_mismatch (filter (lacks_process pm) fm)"
  "fixed (fst (reconcile_maps af clk pm fm files))
     = (if af then map fst (filter (lacks_file fm) pm) @ map fst (filter (lacks_process pm) fm)
        else [])"
  "healthy (fst (reconcile_maps af clk pm fm files))
     = (filter (lacks_file fm) pm = [] \<and> filter (lacks_process pm) fm = [])"
proof -
  let ?rep = "\<lparr>timestamp = clk 0, processes_found = length pm, state_files_found = length fm,
               mismatches = [], fixed = [], healthy = True\<rparr>"
  obtain r1 f1 t1 where s1: "fold (check_process af clk fm) pm (?rep, files, 1) = (r1, f1, t1)"
    by (metis prod_cases3)
  have rm: "fst (reconcile_maps af clk pm fm files)
      = fst (fold (check_file af clk pm) fm (r1, f1, t1))"
    unfolding reconcile_maps_def Let_def s1 by simp
  from loop1_report [of af clk fm pm ?rep files 1] s1
  have r1: "mismatches r1 = map no_state_file_mismatch (filter (lacks_file fm) pm)"
    "fixed r1 = (if af then map fst (filter (lacks_file fm) pm) else [])"
    "healthy r1 = (filter (lacks_file fm) pm = [])"
    by simp_all
  from loop2_report [of af clk pm fm r1 f1 t1] r1 rm
  show "mismatches (fst (reconcile_maps af clk pm fm files))
     = map no_state_file_mismatch (filter (lacks_file fm) pm) @
       map process_missing_mismatch (filter (lacks_process pm) fm)"
  "fixed (fst (reconcile_maps af clk pm fm files))
     = (if af then map fst (filter (lacks_file fm) pm) @ map fst (filter (lacks_process pm) fm)
        else [])"
  "healthy (fst (reconcile_maps af clk pm fm files))
     = (filter (lacks_file fm) pm = [] \<and> filter (lacks_process pm) fm = [])"
    by simp_all
qed

text \<open>
  C3. The report is healthy exactly when its list of mismatches is empty, with or
  without auto-fix; the mismatches and the flag of a run are the same in both modes,
  so a fix never changes the flag.
\<close>

theorem healthy_iff_no_mismatches:
  "healthy (fst (reconcile af clk mtime pm files))
     = (mismatches (fst (reconcile af clk mtime pm files)) = []) \<and>
   mismatches (fst (reconcile True clk mtime pm files))
     = mismatches (fst (reconcile False clk mtime pm files)) \<and>
   healthy (fst (reconcile True clk mtime pm files))
     = healthy (fst (reconcile False clk mtime pm files))"
  by (simp add: reconcile_def reconcile_maps_report)

lemma filter_key_distinct:
  assumes "distinct (map fst xs)"
  shows "filter (\<lambda>e. fst e = b \<and> P e) xs =
           (case map_of xs b of None \<Rightarrow> [] | Some v \<Rightarrow> if P (b, v) then [(b, v)] else [])"
  using assms
proof (induction xs)
  case Nil
  then show ?case by simp
next
  case (Cons x xs)
  have absent: "filter (\<lambda>e. fst e = b \<and> P e) xs = []" if "fst x = b"
    using that Cons.prems by (force simp: filter_empty_conv image_iff)
  show ?case
  proof (cases "fst x = b")
    case True
    with absent Cons.prems show ?thesis by (cases x) auto
  next
    case False
    with Cons show ?thesis by (cases x) auto
  qed
qed

lemma mismatches_of_bot:
  assumes dp: "distinct (map fst pm)" and df: "distinct (map fst fm)"
  shows "filter (\<lambda>m. m_bot_id m = b) (mismatches (fst (reconcile_maps af clk pm fm files))) =
     (case map_of pm b of
        None \<Rightarrow> []
      | Some p \<Rightarrow> if map_of fm b = None then [no_state_file_mismatch (b, p)] else []) @
     (case map_of fm b of
        None \<Rightarrow> []
      | Some f \<Rightarrow>
          if map_of pm b = None \<and> says_running (status f)
          then [process_missing_mismatch (b, f)] else [])"
proof -
  have a: "filter (\<lambda>m. m_bot_id m = b) (map no_state_file_mismatch (filter (lacks_file fm) pm))
      = map no_state_file_mismatch (filter (\<lambda>e. fst e = b \<and> lacks_file fm e) pm)"
    by (simp add: filter_map o_def no_state_file_mismatch_def conj_commute)
  have b: "filter (\<lambda>m. m_bot_id m = b) (map process_missing_mismatch (filter (lacks_process pm) fm))
      = map process_missing_mismatch (filter (\<lambda>e. fst e = b \<and> lacks_process pm e) fm)"
    by (simp add: filter_map o_def process_missing_mismatch_def conj_commute)
  show ?thesis
    unfolding reconcile_maps_report filter_append a b
      filter_key_distinct [OF dp] filter_key_distinct [OF df]
    by (simp add: lacks_file_def lacks_process_def split: option.splits)
qed

text \<open>
  C1. For a process map and a file map (dictionaries, so their keys are distinct),
  the mismatches of the report that concern a bot are: exactly one
  \<open>running_but_no_state_file\<close> when the bot is in the process map only; exactly one
  \<open>state_says_running_but_process_missing\<close> when it is in the file map only and its
  status is \<open>running\<close> or \<open>active\<close>, and none for any other status; none when it is
  in both maps.
\<close>

theorem reconcile_classification:
  "distinct (map fst pm) \<and> distinct (map fst fm) \<longrightarrow>
   (\<forall>b p. map_of pm b = Some p \<and> map_of fm b = None \<longrightarrow>
      filter (\<lambda>m. m_bot_id m = b) (mismatches (fst (reconcile_maps af clk pm fm files)))
        = [\<lparr>m_bot_id = b, issue = ''running_but_no_state_file'', detail = Process p\<rparr>]) \<and>
   (\<forall>b f. map_of fm b = Some f \<and> map_of pm b = None \<longrightarrow>
      filter (\<lambda>m. m_bot_id m = b) (mismatches (fst (reconcile_maps af clk pm fm files)))
        = (if status f = JStr ''running'' \<or> status f = JStr ''active''
           then [\<lparr>m_bot_id = b, issue = ''state_says_running_but_process_missing'',
                  detail = File_State f\<rparr>]
           else [])) \<and>
   (\<forall>b p f. map_of pm b = Some p \<and> map_of fm b = Some f \<longrightarrow>
      filter (\<lambda>m. m_bot_id m = b) (mismatches (fst (reconcile_maps af clk pm fm files))) = [])"
proof
  assume d: "distinct (map fst pm) \<and> distinct (map fst fm)"
  then have dp: "distinct (map fst pm)" and df: "distinct (map fst fm)" by simp_all
  note m = mismatches_of_bot [OF dp df, of _ af clk files]
  show "(\<forall>b p. map_of pm b = Some p \<and> map_of fm b = None \<longrightarrow>
      filter (\<lambda>m. m_bot_id m = b) (mismatches (fst (reconcile_maps af clk pm fm files)))
        = [\<lparr>m_bot_id = b, issue = ''running_but_no_state_file'', detail = Process p\<rparr>]) \<and>
   (\<forall>b f. map_of fm b = Some f \<and> map_of pm b = None \<longrightarrow>
      filter (\<lambda>m. m_bot_id m = b) (mismatches (fst (reconcile_maps af clk pm fm files)))
        = (if status f = JStr ''running'' \<or> status f = JStr ''active''
           then [\<lparr>m_bot_id = b, issue = ''state_says_running_but_process_missing'',
                  detail = File_State f\<rparr>]
           else [])) \<and>
   (\<forall>b p f. map_of pm b = Some p \<and> map_of fm b = Some f \<longrightarrow>
      filter (\<lambda>m. m_bot_id m = b) (mismatches (fst (reconcile_maps af clk pm fm files))) = [])"
    by (simp add: m no_state_file_mismatch_def process_missing_mismatch_def says_running_def)
qed


theorem reconcile_classification_witness:
  "distinct (map fst [(''A'', \<lparr>pid = Some 11, running = True, started_at = Some ''t'', cmdline = ''python a''\<rparr>), (''D'', \<lparr>pid = None, running = True, started_at = None, cmdline = ''python d''\<rparr>)]) \<and>
   distinct (map fst [(''B'', \<lparr>status = JStr ''running'', last_update = JNull, file_mtime = ''m''\<rparr>), (''C'', \<lparr>status = JStr ''stopped'', last_update = JNull, file_mtime = ''m''\<rparr>), (''D'', \<lparr>status = JStr ''active'', last_update = JNull, file_mtime = ''m''\<rparr>)]) \<and>
   map_of [(''A'', \<lparr>pid = Some 11, running = True, started_at = Some ''t'', cmdline = ''python a''\<rparr>), (''D'', \<lparr>pid = None, running = True, started_at = None, cmdline = ''python d''\<rparr>)] ''A'' = Some \<lparr>pid = Some 11, running = True, started_at = Some ''t'', cmdline = ''python a''\<rparr> \<and>
   map_of [(''B'', \<lparr>status = JStr ''running'', last_update = JNull, file_mtime = ''m''\<rparr>), (''C'', \<lparr>status = JStr ''stopped'', last_update = JNull, file_mtime = ''m''\<rparr>), (''D'', \<lparr>status = JStr ''active'', last_update = JNull, file_mtime = ''m''\<rparr>)] ''A'' = None \<and>
   filter (\<lambda>m. m_bot_id m = ''A'') (mismatches (fst (reconcile_maps True (\<lambda>n. ''t'') [(''A'', \<lparr>pid = Some 11, running = True, started_at = Some ''t'', cmdline = ''python a''\<rparr>), (''D'', \<lparr>pid = None, running = True, started_at = None, cmdline = ''python d''\<rparr>)] [(''B'', \<lparr>status = JStr ''running'', last_update = JNull, file_mtime = ''m''\<rparr>), (''C'', \<lparr>status = JStr ''stopped'', last_update = JNull, file_mtime = ''m''\<rparr>), (''D'', \<lparr>status = JStr ''active'', last_update = JNull, file_mtime = ''m''\<rparr>)] [])))
     = [\<lparr>m_bot_id = ''A'', issue = ''running_but_no_state_file'', detail = Process \<lparr>pid = Some 11, running = True, started_at = Some ''t'', cmdline = ''python a''\<rparr>\<rparr>] \<and>
   map_of [(''B'', \<lparr>status = JStr ''running'', last_update = JNull, file_mtime = ''m''\<rparr>), (''C'', \<lparr>status = JStr ''stopped'', last_update = JNull, file_mtime = ''m''\<rparr>), (''D'', \<lparr>status = JStr ''active'', last_update = JNull, file_mtime = ''m''\<rparr>)] ''B'' = Some \<lparr>status = JStr ''running'', last_update = JNull, file_mtime = ''m''\<rparr> \<and>
   map_of [(''A'', \<lparr>pid = Some 11, running = True, started_at = Some ''t'', cmdline = ''python a''\<rparr>), (''D'', \<lparr>pid = None, running = True, started_at = None, cmdline = ''python d''\<rparr>)] ''B'' = None \<and>
   filter (\<lambda>m. m_bot_id m = ''B'') (mismatches (fst (reconcile_maps True (\<lambda>n. ''t'') [(''A'', \<lparr>pid = Some 11, running = True, started_at = Some ''t'', cmdline = ''python a''\<rparr>), (''D'', \<lparr>pid = None, running = True, started_at = None, cmdline = ''python d''\<rparr>)] [(''B'', \<lparr>status = JStr ''running'', last_update = JNull, file_mtime = ''m''\<rparr>), (''C'', \<lparr>status = JStr ''stopped'', last_update = JNull, file_mtime = ''m''\<rparr>), (''D'', \<lparr>status = JStr ''active'', last_update = JNull, file_mtime = ''m''\<rparr>)] [])))
     = [\<lparr>m_bot_id = ''B'', issue = ''state_says_running_but_process_missing'',
          detail = File_State \<lparr>status = JStr ''running'', last_update = JNull, file_mtime = ''m''\<rparr>\<rparr>] \<and>
   map_of [(''B'', \<lparr>status = JStr ''running'', last_update = JNull, file_mtime = ''m''\<rparr>), (''C'', \<lparr>status = JStr ''stopped'', last_update = JNull, file_mtime = ''m''\<rparr>), (''D'', \<lparr>status = JStr ''active'', last_update = JNull, file_mtime = ''m''\<rparr>)] ''C'' = Some \<lparr>status = JStr ''stopped'', last_update = JNull, file_mtime = ''m''\<rparr> \<and>
   map_of [(''A'', \<lparr>pid = Some 11, running = True, started_at = Some ''t'', cmdline = ''python a''\<rparr>), (''D'', \<lparr>pid = None, running = True, started_at = None, cmdline = ''python d''\<rparr>)] ''C'' = None \<and>
   filter (\<lambda>m. m_bot_id m = ''C'') (mismatches (fst (reconcile_maps True (\<lambda>n. ''t'') [(''A'', \<lparr>pid = Some 11, running = True, started_at = Some ''t'', cmdline = ''python a''\<rparr>), (''D'', \<lparr>pid = None, running = True, started_at = None, cmdline = ''python d''\<rparr>)] [(''B'', \<lparr>status = JStr ''running'', last_update = JNull, file_mtime = ''m''\<rparr>), (''C'', \<lparr>status = JStr ''stopped'', last_update = JNull, file_mtime = ''m''\<rparr>), (''D'', \<lparr>status = JStr ''active'', last_update = JNull, file_mtime = ''m''\<rparr>)] []))) = [] \<and>
   map_of [(''A'', \<lparr>pid = Some 11, running = True, started_at = Some ''t'', cmdline = ''python a''\<rparr>), (''D'', \<lparr>pid = None, running = True, started_at = None, cmdline = ''python d''\<rparr>)] ''D'' = Some \<lparr>pid = None, running = True, started_at = None, cmdline = ''python d''\<rparr> \<and>
   map_of [(''B'', \<lparr>status = JStr ''running'', last_update = JNull, file_mtime = ''m''\<rparr>), (''C'', \<lparr>status = JStr ''stopped'', last_update = JNull, file_mtime = ''m''\<rparr>), (''D'', \<lparr>status = JStr ''active'', last_update = JNull, file_mtime = ''m''\<rparr>)] ''D'' = Some \<lparr>status = JStr ''active'', last_update = JNull, file_mtime = ''m''\<rparr> \<and>
   filter (\<lambda>m. m_bot_id m = ''D'') (mismatches (fst (reconcile_maps True (\<lambda>n. ''t'') [(''A'', \<lparr>pid = Some 11, running = True, started_at = Some ''t'', cmdline = ''python a''\<rparr>), (''D'', \<lparr>pid = None, running = True, started_at = None, cmdline = ''python d''\<rparr>)] [(''B'', \<lparr>status = JStr ''running'', last_update = JNull, file_mtime = ''m''\<rparr>), (''C'', \<lparr>status = JStr ''stopped'', last_update = JNull, file_mtime = ''m''\<rparr>), (''D'', \<lparr>status = JStr ''active'', last_update = JNull, file_mtime = ''m''\<rparr>)] []))) = []"
proof -
  let ?pm = "[(''A'', \<lparr>pid = Some 11, running = True, started_at = Some ''t'', cmdline = ''python a''\<rparr>), (''D'', \<lparr>pid = None, running = True, started_at = None, cmdline = ''python d''\<rparr>)]"
  let ?fm = "[(''B'', \<lparr>status = JStr ''running'', last_update = JNull, file_mtime = ''m''\<rparr>), (''C'', \<lparr>status = JStr ''stopped'', last_update = JNull, file_mtime = ''m''\<rparr>), (''D'', \<lparr>status = JStr ''active'', last_update = JNull, file_mtime = ''m''\<rparr>)]"
  have d: "distinct (map fst ?pm) \<and> distinct (map fst ?fm)" by simp
  have a: "map_of ?pm ''A'' = Some \<lparr>pid = Some 11, running = True, started_at = Some ''t'', cmdline = ''python a''\<rparr> \<and> map_of ?fm ''A'' = None" by simp
  have b: "map_of ?fm ''B'' = Some \<lparr>status = JStr ''running'', last_update = JNull, file_mtime = ''m''\<rparr> \<and> map_of ?pm ''B'' = None" by simp
  have c: "map_of ?fm ''C'' = Some \<lparr>status = JStr ''stopped'', last_update = JNull, file_mtime = ''m''\<rparr> \<and> map_of ?pm ''C'' = None" by simp
  have e: "map_of ?pm ''D'' = Some \<lparr>pid = None, running = True, started_at = None, cmdline = ''python d''\<rparr> \<and> map_of ?fm ''D'' = Some \<lparr>status = JStr ''active'', last_update = JNull, file_mtime = ''m''\<rparr>" by simp
  note inst = reconcile_classification [of ?pm ?fm True "\<lambda>n. ''t''" "[]"]
  from inst d a have ra: "filter (\<lambda>m. m_bot_id m = ''A'') (mismatches (fst (reconcile_maps True (\<lambda>n. ''t'') [(''A'', \<lparr>pid = Some 11, running = True, started_at = Some ''t'', cmdline = ''python a''\<rparr>), (''D'', \<lparr>pid = None, running = True, started_at = None, cmdline = ''python d''\<rparr>)] [(''B'', \<lparr>status = JStr ''running'', last_update = JNull, file_mtime = ''m''\<rparr>), (''C'', \<lparr>status = JStr ''stopped'', last_update = JNull, file_mtime = ''m''\<rparr>), (''D'', \<lparr>status = JStr ''active'', last_update = JNull, file_mtime = ''m''\<rparr>)] [])))
     = [\<lparr>m_bot_id = ''A'', issue = ''running_but_no_state_file'', detail = Process \<lparr>pid = Some 11, running = True, started_at = Some ''t'', cmdline = ''python a''\<rparr>\<rparr>]"
    by blast
  from inst d b have "filter (\<lambda>m. m_bot_id m = ''B'') (mismatches (fst (reconcile_maps True (\<lambda>n. ''t'') [(''A'', \<lparr>pid = Some 11, running = True, started_at = Some ''t'', cmdline = ''python a''\<rparr>), (''D'', \<lparr>pid = None, running = True, started_at = None, cmdline = ''python d''\<rparr>)] [(''B'', \<lparr>status = JStr ''running'', last_update = JNull, file_mtime = ''m''\<rparr>), (''C'', \<lparr>status = JStr ''stopped'', last_update = JNull, file_mtime = ''m''\<rparr>), (''D'', \<lparr>status = JStr ''active'', last_update = JNull, file_mtime = ''m''\<rparr>)] [])))
     = (if status \<lparr>status = JStr ''running'', last_update = JNull, file_mtime = ''m''\<rparr> = JStr ''running'' \<or> status \<lparr>status = JStr ''running'', last_update = JNull, file_mtime = ''m''\<rparr> = JStr ''active''
        then [\<lparr>m_bot_id = ''B'', issue = ''state_says_running_but_process_missing'',
          detail = File_State \<lparr>status = JStr ''running'', last_update = JNull, file_mtime = ''m''\<rparr>\<rparr>] else [])"
    by blast
  then have rb: "filter (\<lambda>m. m_bot_id m = ''B'') (mismatches (fst (reconcile_maps True (\<lambda>n. ''t'') [(''A'', \<lparr>pid = Some 11, running = True, started_at = Some ''t'', cmdline = ''python a''\<rparr>), (''D'', \<lparr>pid = None, running = True, started_at = None, cmdline = ''python d''\<rparr>)] [(''B'', \<lparr>status = JStr ''running'', last_update = JNull, file_mtime = ''m''\<rparr>), (''C'', \<lparr>status = JStr ''stopped'', last_update = JNull, file_mtime = ''m''\<rparr>), (''D'', \<lparr>status = JStr ''active'', last_update = JNull, file_mtime = ''m''\<rparr>)] [])))
     = [\<lparr>m_bot_id = ''B'', issue = ''state_says_running_but_process_missing'',
          detail = File_State \<lparr>status = JStr ''running'', last_update = JNull, file_mtime = ''m''\<rparr>\<rparr>]"
    by simp
  from inst d c have "filter (\<lambda>m. m_bot_id m = ''C'') (mismatches (fst (reconcile_maps True (\<lambda>n. ''t'') [(''A'', \<lparr>pid = Some 11, running = True, started_at = Some ''t'', cmdline = ''python a''\<rparr>), (''D'', \<lparr>pid = None, running = True, started_at = None, cmdline = ''python d''\<rparr>)] [(''B'', \<lparr>status = JStr ''running'', last_update = JNull, file_mtime = ''m''\<rparr>), (''C'', \<lparr>status = JStr ''stopped'', last_update = JNull, file_mtime = ''m''\<rparr>), (''D'', \<lparr>status = JStr ''active'', last_update = JNull, file_mtime = ''m''\<rparr>)] [])))
     = (if status \<lparr>status = JStr ''stopped'', last_update = JNull, file_mtime = ''m''\<rparr> = JStr ''running'' \<or> status \<lparr>status = JStr ''stopped'', last_update = JNull, file_mtime = ''m''\<rparr> = JStr ''active''
        then [\<lparr>m_bot_id = ''C'', issue = ''state_says_running_but_process_missing'',
          detail = File_State \<lparr>status = JStr ''stopped'', last_update = JNull, file_mtime = ''m''\<rparr>\<rparr>] else [])"
    by blast
  then have rc: "filter (\<lambda>m. m_bot_id m = ''C'') (mismatches (fst (reconcile_maps True (\<lambda>n. ''t'') [(''A'', \<lparr>pid = Some 11, running = True, started_at = Some ''t'', cmdline = ''python a''\<rparr>), (''D'', \<lparr>pid = None, running = True, started_at = None, cmdline = ''python d''\<rparr>)] [(''B'', \<lparr>status = JStr ''running'', last_update = JNull, file_mtime = ''m''\<rparr>), (''C'', \<lparr>status = JStr ''stopped'', last_update = JNull, file_mtime = ''m''\<rparr>), (''D'', \<lparr>status = JStr ''active'', last_update = JNull, file_mtime = ''m''\<rparr>)] []))) = []"
    by simp
  from inst d e have rd: "filter (\<lambda>m. m_bot_id m = ''D'') (mismatches (fst (reconcile_maps True (\<lambda>n. ''t'') [(''A'', \<lparr>pid = Some 11, running = True, started_at = Some ''t'', cmdline = ''python a''\<rparr>), (''D'', \<lparr>pid = None, running = True, started_at = None, cmdline = ''python d''\<rparr>)] [(''B'', \<lparr>status = JStr ''running'', last_update = JNull, file_mtime = ''m''\<rparr>), (''C'', \<lparr>status = JStr ''stopped'', last_update = JNull, file_mtime = ''m''\<rparr>), (''D'', \<lparr>status = JStr ''active'', last_update = JNull, file_mtime = ''m''\<rparr>)] []))) = []"
    by blast
  from d a b c e ra rb rc rd show ?thesis by blast
qed

lemma map_of_create_state_file:
  "map_of (create_state_file b p now files) q =
     (if q = state_file b then Some (Doc (created_state b p now)) else map_of files q)"
  by (simp add: create_state_file_def write_text_def AList.update_conv')

lemma update_state_to_stopped_other:
  "q \<noteq> state_file b \<Longrightarrow> map_of (fst (update_state_to_stopped b now files)) q = map_of files q"
  by (simp add: update_state_to_stopped_def write_text_def AList.update_conv'
      split: option.splits sum.splits)

lemma update_state_to_stopped_doc:
  "map_of files (state_file b) = Some (Doc d) \<Longrightarrow>
     map_of (fst (update_state_to_stopped b now files)) (state_file b)
       = Some (Doc (stopped_state d now))"
  by (simp add: update_state_to_stopped_def write_text_def AList.update_conv')

lemma update_state_to_stopped_cases:
  "map_of (fst (update_state_to_stopped b now files)) (state_file b) = map_of files (state_file b) \<or>
   (\<exists>d. map_of (fst (update_state_to_stopped b now files)) (state_file b)
          = Some (Doc (stopped_state d now)))"
  by (auto simp: update_state_to_stopped_def write_text_def AList.update_conv'
      split: option.splits sum.splits)

lemma satisfies_created: "satisfies_color_mapping (created_state b p now)"
  by (simp add: satisfies_color_mapping_def created_state_def dict_get_def spec_status_color_def)

lemma satisfies_stopped: "satisfies_color_mapping (stopped_state d now)"
  by (simp add: satisfies_color_mapping_def stopped_state_def dict_get_def spec_status_color_def
      AList.update_conv')

lemma changed_ok_refl: "changed_ok files files"
  by (simp add: changed_ok_def)

lemma changed_ok_trans: "changed_ok f g \<Longrightarrow> changed_ok g h \<Longrightarrow> changed_ok f h"
  unfolding changed_ok_def by metis

lemma changed_ok_create: "changed_ok files (create_state_file b p now files)"
  unfolding changed_ok_def using satisfies_created by (auto simp: map_of_create_state_file)

lemma changed_ok_stopped: "changed_ok files (fst (update_state_to_stopped b now files))"
  unfolding changed_ok_def
proof
  fix q
  show "map_of (fst (update_state_to_stopped b now files)) q = map_of files q \<or>
        (\<exists>d. map_of (fst (update_state_to_stopped b now files)) q = Some (Doc d) \<and>
             satisfies_color_mapping d)"
  proof (cases "q = state_file b")
    case True
    with update_state_to_stopped_cases [of b now files] satisfies_stopped show ?thesis by auto
  next
    case False
    then show ?thesis by (simp add: update_state_to_stopped_other)
  qed
qed

lemma check_process_files:
  "fst (snd (check_process af clk fm e (rep, files, t)))
     = (if af \<and> lacks_file fm e then create_state_file (fst e) (snd e) (clk t) files else files)"
  by (simp add: check_process_def Let_def lacks_file_def)

lemma check_file_files:
  "fst (snd (check_file af clk pm e (rep, files, t)))
     = (if af \<and> lacks_process pm e then fst (update_state_to_stopped (fst e) (clk t) files)
        else files)"
  by (simp add: check_file_def Let_def lacks_process_def split: prod.splits)

lemma loop1_other:
  assumes "\<forall>e \<in> set pm. lacks_file fm e \<longrightarrow> state_file (fst e) \<noteq> q"
  shows "map_of (fst (snd (fold (check_process af clk fm) pm (rep, files, t)))) q = map_of files q"
  using assms
proof (induction pm arbitrary: rep files t)
  case Nil
  then show ?case by simp
next
  case (Cons e pm)
  obtain r' f' t' where step: "check_process af clk fm e (rep, files, t) = (r', f', t')"
    by (metis prod_cases3)
  from check_process_files [of af clk fm e rep files t] step Cons.prems
  have "map_of f' q = map_of files q"
    by (auto simp: map_of_create_state_file)
  with Cons.IH [of r' f' t'] Cons.prems show ?case by (simp add: step)
qed

lemma loop2_other:
  assumes "\<forall>e \<in> set fm. lacks_process pm e \<longrightarrow> state_file (fst e) \<noteq> q"
  shows "map_of (fst (snd (fold (check_file af clk pm) fm (rep, files, t)))) q = map_of files q"
  using assms
proof (induction fm arbitrary: rep files t)
  case Nil
  then show ?case by simp
next
  case (Cons e fm)
  obtain r' f' t' where step: "check_file af clk pm e (rep, files, t) = (r', f', t')"
    by (metis prod_cases3)
  from check_file_files [of af clk pm e rep files t] step Cons.prems
  have "map_of f' q = map_of files q"
    by (auto simp: update_state_to_stopped_other)
  with Cons.IH [of r' f' t'] Cons.prems show ?case by (simp add: step)
qed

lemma loop1_changed_ok:
  "changed_ok files (fst (snd (fold (check_process af clk fm) pm (rep, files, t))))"
proof (induction pm arbitrary: rep files t)
  case Nil
  then show ?case by (simp add: changed_ok_refl)
next
  case (Cons e pm)
  obtain r' f' t' where step: "check_process af clk fm e (rep, files, t) = (r', f', t')"
    by (metis prod_cases3)
  from check_process_files [of af clk fm e rep files t] step
  have "changed_ok files f'"
    by (auto simp: changed_ok_refl changed_ok_create)
  with Cons.IH [of f' r' t'] show ?case
    by (simp add: step) (rule changed_ok_trans)
qed

lemma loop2_changed_ok:
  "changed_ok files (fst (snd (fold (check_file af clk pm) fm (rep, files, t))))"
proof (induction fm arbitrary: rep files t)
  case Nil
  then show ?case by (simp add: changed_ok_refl)
next
  case (Cons e fm)
  obtain r' f' t' where step: "check_file af clk pm e (rep, files, t) = (r', f', t')"
    by (metis prod_cases3)
  from check_file_files [of af clk pm e rep files t] step
  have "changed_ok files f'"
    by (auto simp: changed_ok_refl changed_ok_stopped)
  with Cons.IH [of f' r' t'] show ?case
    by (simp add: step) (rule changed_ok_trans)
qed

lemma loop1_created:
  assumes "distinct (map fst pm)" "(b, p) \<in> set pm" "lacks_file fm (b, p)"
  shows "\<exists>n. map_of (fst (snd (fold (check_process True clk fm) pm (rep, files, t)))) (state_file b)
           = Some (Doc (created_state b p (clk n)))"
  using assms
proof (induction pm arbitrary: rep files t)
  case Nil
  then show ?case by simp
next
  case (Cons e pm)
  obtain r' f' t' where step: "check_process True clk fm e (rep, files, t) = (r', f', t')"
    by (metis prod_cases3)
  show ?case
  proof (cases "e = (b, p)")
    case True
    from Cons.prems True have "\<forall>x \<in> set pm. fst x \<noteq> b" by force
    then have "\<forall>x \<in> set pm. lacks_file fm x \<longrightarrow> state_file (fst x) \<noteq> state_file b"
      by (simp add: state_file_inj)
    from loop1_other [OF this, of True clk r' f' t']
    have "map_of (fst (snd (fold (check_process True clk fm) pm (r', f', t')))) (state_file b)
        = map_of f' (state_file b)" .
    moreover from check_process_files [of True clk fm e rep files t] step True Cons.prems(3)
    have "map_of f' (state_file b) = Some (Doc (created_state b p (clk t)))"
      by (simp add: map_of_create_state_file)
    ultimately show ?thesis by (auto simp: step)
  next
    case False
    with Cons.prems have "distinct (map fst pm)" "(b, p) \<in> set pm" by auto
    from Cons.IH [OF this Cons.prems(3), of r' f' t'] show ?thesis by (simp add: step)
  qed
qed

lemma loop2_stopped:
  assumes "distinct (map fst fm)" "(b, f) \<in> set fm" "lacks_process pm (b, f)"
    and "map_of files (state_file b) = Some (Doc d)"
  shows "\<exists>n. map_of (fst (snd (fold (check_file True clk pm) fm (rep, files, t)))) (state_file b)
           = Some (Doc (stopped_state d (clk n)))"
  using assms
proof (induction fm arbitrary: rep files t)
  case Nil
  then show ?case by simp
next
  case (Cons e fm)
  obtain r' f' t' where step: "check_file True clk pm e (rep, files, t) = (r', f', t')"
    by (metis prod_cases3)
  show ?case
  proof (cases "e = (b, f)")
    case True
    from Cons.prems True have "\<forall>x \<in> set fm. fst x \<noteq> b" by force
    then have "\<forall>x \<in> set fm. lacks_process pm x \<longrightarrow> state_file (fst x) \<noteq> state_file b"
      by (simp add: state_file_inj)
    from loop2_other [OF this, of True clk r' f' t']
    have "map_of (fst (snd (fold (check_file True clk pm) fm (r', f', t')))) (state_file b)
        = map_of f' (state_file b)" .
    moreover from check_file_files [of True clk pm e rep files t] step True Cons.prems(3,4)
    have "map_of f' (state_file b) = Some (Doc (stopped_state d (clk t)))"
      by (simp add: update_state_to_stopped_doc)
    ultimately show ?thesis by (auto simp: step)
  next
    case False
    with Cons.prems have d: "distinct (map fst fm)" and m: "(b, f) \<in> set fm"
      by auto
    from Cons.prems(1) m have ne: "fst e \<noteq> b"
      by (metis distinct.simps(2) fst_conv image_eqI list.simps(9) set_map)
    from check_file_files [of True clk pm e rep files t] step ne Cons.prems(4)
    have "map_of f' (state_file b) = Some (Doc d)"
      by (auto simp: update_state_to_stopped_other state_file_inj)
    from Cons.IH [OF d m Cons.prems(3) this, of r' t'] show ?thesis by (simp add: step)
  qed
qed

lemma distinct_get_file_states: "distinct (map fst (get_file_states mtime files))"
proof -
  have "distinct (map fst acc) \<Longrightarrow> distinct (map fst (fold (scan_file mtime) files acc))" for acc
  proof (induction files arbitrary: acc)
    case Nil
    then show ?case by simp
  next
    case (Cons x files)
    have "distinct (map fst (scan_file mtime x acc))"
      using Cons.prems by (simp add: scan_file_def AList.distinct_update split: sum.splits)
    from Cons.IH [OF this] show ?case by simp
  qed
  from this [of "[]"] show ?thesis by (simp add: get_file_states_def)
qed

lemma reconcile_maps_files:
  "snd (reconcile_maps af clk pm fm files) =
     fst (snd (fold (check_file af clk pm) fm
                (fold (check_process af clk fm) pm
                   (\<lparr>timestamp = clk 0, processes_found = length pm,
                     state_files_found = length fm, mismatches = [], fixed = [],
                     healthy = True\<rparr>, files, 1))))"
  by (simp add: reconcile_maps_def Let_def)

lemma reconcile_maps_changed_ok: "changed_ok files (snd (reconcile_maps af clk pm fm files))"
proof -
  let ?rep = "\<lparr>timestamp = clk 0, processes_found = length pm, state_files_found = length fm,
               mismatches = [], fixed = [], healthy = True\<rparr>"
  obtain r1 f1 t1 where s1: "fold (check_process af clk fm) pm (?rep, files, 1) = (r1, f1, t1)"
    by (metis prod_cases3)
  from loop1_changed_ok [of files af clk fm pm ?rep 1] s1 have a: "changed_ok files f1" by simp
  have b: "changed_ok f1 (fst (snd (fold (check_file af clk pm) fm (r1, f1, t1))))"
    by (rule loop2_changed_ok)
  from changed_ok_trans [OF a b] show ?thesis
    unfolding reconcile_maps_files s1 .
qed

lemma reconcile_maps_created:
  assumes dp: "distinct (map fst pm)"
    and inp: "map_of pm b = Some p" and nof: "map_of fm b = None"
  shows "\<exists>n. map_of (snd (reconcile_maps True clk pm fm files)) (state_file b)
           = Some (Doc (created_state b p (clk n)))"
    and "b \<in> set (fixed (fst (reconcile_maps True clk pm fm files)))"
proof -
  let ?rep = "\<lparr>timestamp = clk 0, processes_found = length pm, state_files_found = length fm,
               mismatches = [], fixed = [], healthy = True\<rparr>"
  obtain r1 f1 t1 where s1: "fold (check_process True clk fm) pm (?rep, files, 1) = (r1, f1, t1)"
    by (metis prod_cases3)
  have mem: "(b, p) \<in> set pm" using inp by (rule map_of_SomeD)
  have lf: "lacks_file fm (b, p)" using nof by (simp add: lacks_file_def)
  from loop1_created [OF dp mem lf, of clk ?rep files 1] s1
  obtain n where c: "map_of f1 (state_file b) = Some (Doc (created_state b p (clk n)))"
    by auto
  have "\<forall>e \<in> set fm. lacks_process pm e \<longrightarrow> state_file (fst e) \<noteq> state_file b"
  proof (intro ballI impI)
    fix e assume "e \<in> set fm" "lacks_process pm e"
    then have "map_of pm (fst e) = None" by (simp add: lacks_process_def)
    with inp show "state_file (fst e) \<noteq> state_file b" by (auto simp: state_file_inj)
  qed
  from loop2_other [OF this, of True clk r1 f1 t1] c
  show "\<exists>n. map_of (snd (reconcile_maps True clk pm fm files)) (state_file b)
           = Some (Doc (created_state b p (clk n)))"
    unfolding reconcile_maps_files s1 by auto
  from mem lf have "b \<in> fst ` set (filter (lacks_file fm) pm)" by force
  then show "b \<in> set (fixed (fst (reconcile_maps True clk pm fm files)))"
    by (simp add: reconcile_maps_report)
qed

lemma reconcile_maps_stopped:
  assumes df: "distinct (map fst fm)"
    and inf: "map_of fm b = Some f" and run: "says_running (status f)"
    and nop: "map_of pm b = None"
    and onfile: "map_of files (state_file b) = Some (Doc d)"
  shows "\<exists>n. map_of (snd (reconcile_maps True clk pm fm files)) (state_file b)
           = Some (Doc (stopped_state d (clk n)))"
    and "b \<in> set (fixed (fst (reconcile_maps True clk pm fm files)))"
proof -
  let ?rep = "\<lparr>timestamp = clk 0, processes_found = length pm, state_files_found = length fm,
               mismatches = [], fixed = [], healthy = True\<rparr>"
  obtain r1 f1 t1 where s1: "fold (check_process True clk fm) pm (?rep, files, 1) = (r1, f1, t1)"
    by (metis prod_cases3)
  have mem: "(b, f) \<in> set fm" using inf by (rule map_of_SomeD)
  have lp: "lacks_process pm (b, f)" using nop run by (simp add: lacks_process_def)
  have "\<forall>e \<in> set pm. lacks_file fm e \<longrightarrow> state_file (fst e) \<noteq> state_file b"
  proof (intro ballI impI)
    fix e assume "e \<in> set pm" "lacks_file fm e"
    then have "map_of fm (fst e) = None" by (simp add: lacks_file_def)
    with inf show "state_file (fst e) \<noteq> state_file b" by (auto simp: state_file_inj)
  qed
  from loop1_other [OF this, of True clk ?rep files 1] s1 onfile
  have f1: "map_of f1 (state_file b) = Some (Doc d)" by simp
  from loop2_stopped [OF df mem lp f1, of clk r1 t1]
  show "\<exists>n. map_of (snd (reconcile_maps True clk pm fm files)) (state_file b)
           = Some (Doc (stopped_state d (clk n)))"
    unfolding reconcile_maps_files s1 by auto
  from mem lp have "b \<in> fst ` set (filter (lacks_process pm) fm)" by force
  then show "b \<in> set (fixed (fst (reconcile_maps True clk pm fm files)))"
    by (simp add: reconcile_maps_report)
qed

lemma created_state_fields:
  "dict_get (created_state b p now) ''status'' = Some (JStr ''running'')"
  "dict_get (created_state b p now) ''status_color'' = Some (JStr ''green'')"
  "map fst (created_state b p now) =
     [''bot_id'', ''bot_name'', ''status'', ''status_color'', ''pid'', ''started_at'',
      ''last_update'', ''reconciled'']"
  by (simp_all add: created_state_def dict_get_def)

lemma created_state_absent:
  "dict_get (created_state b p now) ''pnl_total'' = None"
  "dict_get (created_state b p now) ''pnl_24h'' = None"
  "dict_get (created_state b p now) ''trades_total'' = None"
  "dict_get (created_state b p now) ''trades_24h'' = None"
  "dict_get (created_state b p now) ''position'' = None"
  "dict_get (created_state b p now) ''last_error'' = None"
  "dict_get (created_state b p now) ''uptime_seconds'' = None"
  "dict_get (created_state b p now) ''version'' = None"
  by (simp_all add: created_state_def dict_get_def)

lemma stopped_state_fields:
  "dict_get (stopped_state d now) ''status'' = Some (JStr ''stopped'')"
  "dict_get (stopped_state d now) ''status_color'' = Some (JStr ''red'')"
  "k \<noteq> ''status'' \<and> k \<noteq> ''status_color'' \<and> k \<noteq> ''last_update'' \<and> k \<noteq> ''reconciled''
     \<longrightarrow> dict_get (stopped_state d now) k = dict_get d k"
  by (simp_all add: stopped_state_def dict_get_def AList.update_conv')

text \<open>
  C2. In auto-fix mode: a bot of the process map that the file map lacks gets a state
  file with status \<open>running\<close> and colour \<open>green\<close>; a bot of the file map with status
  \<open>running\<close> or \<open>active\<close> that the process map lacks, and whose state file exists
  and parses, has that file rewritten to status \<open>stopped\<close> and colour \<open>red\<close>, its
  other fields but \<open>last_update\<close> and \<open>reconciled\<close> kept; both are in the list of
  fixed bots.
\<close>

theorem auto_fix_repairs:
  "distinct (map fst pm) \<longrightarrow>
   (\<forall>b p. map_of pm b = Some p \<and> map_of (get_file_states mtime files) b = None \<longrightarrow>
      (\<exists>d. map_of (snd (reconcile True clk mtime pm files)) (state_file b) = Some (Doc d) \<and>
           dict_get d ''status'' = Some (JStr ''running'') \<and>
           dict_get d ''status_color'' = Some (JStr ''green'') \<and>
           b \<in> set (fixed (fst (reconcile True clk mtime pm files))))) \<and>
   (\<forall>b f old.
      map_of (get_file_states mtime files) b = Some f \<and>
      (status f = JStr ''running'' \<or> status f = JStr ''active'') \<and>
      map_of pm b = None \<and>
      map_of files (state_file b) = Some (Doc old) \<longrightarrow>
      (\<exists>d. map_of (snd (reconcile True clk mtime pm files)) (state_file b) = Some (Doc d) \<and>
           dict_get d ''status'' = Some (JStr ''stopped'') \<and>
           dict_get d ''status_color'' = Some (JStr ''red'') \<and>
           (\<forall>k. k \<noteq> ''status'' \<and> k \<noteq> ''status_color'' \<and> k \<noteq> ''last_update'' \<and>
                k \<noteq> ''reconciled'' \<longrightarrow> dict_get d k = dict_get old k) \<and>
           b \<in> set (fixed (fst (reconcile True clk mtime pm files)))))"
proof (intro impI conjI allI)
  fix b p
  assume dp: "distinct (map fst pm)"
    and h: "map_of pm b = Some p \<and> map_of (get_file_states mtime files) b = None"
  from h have inp: "map_of pm b = Some p"
    and nof: "map_of (get_file_states mtime files) b = None" by simp_all
  note c = reconcile_maps_created [OF dp inp nof, of clk files, folded reconcile_def]
  from c created_state_fields(1,2)
  show "\<exists>d. map_of (snd (reconcile True clk mtime pm files)) (state_file b) = Some (Doc d) \<and>
           dict_get d ''status'' = Some (JStr ''running'') \<and>
           dict_get d ''status_color'' = Some (JStr ''green'') \<and>
           b \<in> set (fixed (fst (reconcile True clk mtime pm files)))"
    by blast
next
  fix b f old
  assume h: "map_of (get_file_states mtime files) b = Some f \<and>
      (status f = JStr ''running'' \<or> status f = JStr ''active'') \<and>
      map_of pm b = None \<and>
      map_of files (state_file b) = Some (Doc old)"
  then have run: "says_running (status f)" by (simp add: says_running_def)
  from h have inf: "map_of (get_file_states mtime files) b = Some f"
    and nop: "map_of pm b = None"
    and onfile: "map_of files (state_file b) = Some (Doc old)" by simp_all
  note c = reconcile_maps_stopped [OF distinct_get_file_states inf run nop onfile, of clk,
      folded reconcile_def]
  from c obtain n where
    a: "map_of (snd (reconcile True clk mtime pm files)) (state_file b)
          = Some (Doc (stopped_state old (clk n)))"
    and m: "b \<in> set (fixed (fst (reconcile True clk mtime pm files)))"
    by blast
  from a m stopped_state_fields [where d = old and now = "clk n"]
  show "\<exists>d. map_of (snd (reconcile True clk mtime pm files)) (state_file b) = Some (Doc d) \<and>
           dict_get d ''status'' = Some (JStr ''stopped'') \<and>
           dict_get d ''status_color'' = Some (JStr ''red'') \<and>
           (\<forall>k. k \<noteq> ''status'' \<and> k \<noteq> ''status_color'' \<and> k \<noteq> ''last_update'' \<and>
                k \<noteq> ''reconciled'' \<longrightarrow> dict_get d k = dict_get old k) \<and>
           b \<in> set (fixed (fst (reconcile True clk mtime pm files)))"
    by blast
qed

lemma scan_example:
  "get_file_states (\<lambda>p. ''m'') [(''B.json'', Doc [(''status'', JStr ''running''), (''pnl_total'', JFloat 4)])] = [(''B'', \<lparr>status = JStr ''running'', last_update = JNull, file_mtime = ''m''\<rparr>)]"
  by (simp add: get_file_states_def scan_file_def glob_json_def stem_def path_name_def
      name_suffix_def dict_get_default_def Let_def)

theorem auto_fix_repairs_witness:
  "distinct (map fst [(''A'', \<lparr>pid = Some 11, running = True, started_at = Some ''s'', cmdline = ''python a''\<rparr>)]) \<and>
   map_of [(''A'', \<lparr>pid = Some 11, running = True, started_at = Some ''s'', cmdline = ''python a''\<rparr>)] ''A'' = Some \<lparr>pid = Some 11, running = True, started_at = Some ''s'', cmdline = ''python a''\<rparr> \<and>
   map_of (get_file_states (\<lambda>p. ''m'') [(''B.json'', Doc [(''status'', JStr ''running''), (''pnl_total'', JFloat 4)])]) ''A'' = None \<and>
   (\<exists>d. map_of (snd (reconcile True (\<lambda>n. ''t'') (\<lambda>p. ''m'') [(''A'', \<lparr>pid = Some 11, running = True, started_at = Some ''s'', cmdline = ''python a''\<rparr>)] [(''B.json'', Doc [(''status'', JStr ''running''), (''pnl_total'', JFloat 4)])])) (state_file ''A'') = Some (Doc d) \<and>
        dict_get d ''status'' = Some (JStr ''running'') \<and>
        dict_get d ''status_color'' = Some (JStr ''green'') \<and>
        ''A'' \<in> set (fixed (fst (reconcile True (\<lambda>n. ''t'') (\<lambda>p. ''m'') [(''A'', \<lparr>pid = Some 11, running = True, started_at = Some ''s'', cmdline = ''python a''\<rparr>)] [(''B.json'', Doc [(''status'', JStr ''running''), (''pnl_total'', JFloat 4)])])))) \<and>
   map_of (get_file_states (\<lambda>p. ''m'') [(''B.json'', Doc [(''status'', JStr ''running''), (''pnl_total'', JFloat 4)])]) ''B'' = Some \<lparr>status = JStr ''running'', last_update = JNull, file_mtime = ''m''\<rparr> \<and>
   status \<lparr>status = JStr ''running'', last_update = JNull, file_mtime = ''m''\<rparr> = JStr ''running'' \<and>
   map_of [(''A'', \<lparr>pid = Some 11, running = True, started_at = Some ''s'', cmdline = ''python a''\<rparr>)] ''B'' = None \<and>
   map_of [(''B.json'', Doc [(''status'', JStr ''running''), (''pnl_total'', JFloat 4)])] (state_file ''B'') = Some (Doc [(''status'', JStr ''running''), (''pnl_total'', JFloat 4)]) \<and>
   (\<exists>d. map_of (snd (reconcile True (\<lambda>n. ''t'') (\<lambda>p. ''m'') [(''A'', \<lparr>pid = Some 11, running = True, started_at = Some ''s'', cmdline = ''python a''\<rparr>)] [(''B.json'', Doc [(''status'', JStr ''running''), (''pnl_total'', JFloat 4)])])) (state_file ''B'') = Some (Doc d) \<and>
        dict_get d ''status'' = Some (JStr ''stopped'') \<and>
        dict_get d ''status_color'' = Some (JStr ''red'') \<and>
        dict_get d ''pnl_total'' = Some (JFloat 4) \<and>
        ''B'' \<in> set (fixed (fst (reconcile True (\<lambda>n. ''t'') (\<lambda>p. ''m'') [(''A'', \<lparr>pid = Some 11, running = True, started_at = Some ''s'', cmdline = ''python a''\<rparr>)] [(''B.json'', Doc [(''status'', JStr ''running''), (''pnl_total'', JFloat 4)])]))))"
proof -
  have d: "distinct (map fst [(''A'', \<lparr>pid = Some 11, running = True, started_at = Some ''s'', cmdline = ''python a''\<rparr>)])" by simp
  have a: "map_of [(''A'', \<lparr>pid = Some 11, running = True, started_at = Some ''s'', cmdline = ''python a''\<rparr>)] ''A'' = Some \<lparr>pid = Some 11, running = True, started_at = Some ''s'', cmdline = ''python a''\<rparr> \<and>
           map_of (get_file_states (\<lambda>p. ''m'') [(''B.json'', Doc [(''status'', JStr ''running''), (''pnl_total'', JFloat 4)])]) ''A'' = None"
    by (simp add: scan_example)
  have b: "map_of (get_file_states (\<lambda>p. ''m'') [(''B.json'', Doc [(''status'', JStr ''running''), (''pnl_total'', JFloat 4)])]) ''B'' = Some \<lparr>status = JStr ''running'', last_update = JNull, file_mtime = ''m''\<rparr> \<and>
      (status \<lparr>status = JStr ''running'', last_update = JNull, file_mtime = ''m''\<rparr> = JStr ''running'' \<or> status \<lparr>status = JStr ''running'', last_update = JNull, file_mtime = ''m''\<rparr> = JStr ''active'') \<and>
      map_of [(''A'', \<lparr>pid = Some 11, running = True, started_at = Some ''s'', cmdline = ''python a''\<rparr>)] ''B'' = None \<and>
      map_of [(''B.json'', Doc [(''status'', JStr ''running''), (''pnl_total'', JFloat 4)])] (state_file ''B'') = Some (Doc [(''status'', JStr ''running''), (''pnl_total'', JFloat 4)])"
    by (simp add: scan_example state_file_def)
  note inst = auto_fix_repairs [where clk = "\<lambda>n. ''t''", THEN mp, OF d]
  note ra = inst [THEN conjunct1, THEN spec, THEN spec, THEN mp, OF a]
  note rb0 = inst [THEN conjunct2, THEN spec, THEN spec, THEN spec, THEN mp, OF b]
  from rb0 obtain dd where
    r1: "map_of (snd (reconcile True (\<lambda>n. ''t'') (\<lambda>p. ''m'') [(''A'', \<lparr>pid = Some 11, running = True, started_at = Some ''s'', cmdline = ''python a''\<rparr>)] [(''B.json'', Doc [(''status'', JStr ''running''), (''pnl_total'', JFloat 4)])])) (state_file ''B'') = Some (Doc dd)"
    and r2: "dict_get dd ''status'' = Some (JStr ''stopped'')"
    and r3: "dict_get dd ''status_color'' = Some (JStr ''red'')"
    and fr: "\<forall>k. k \<noteq> ''status'' \<and> k \<noteq> ''status_color'' \<and> k \<noteq> ''last_update'' \<and>
                k \<noteq> ''reconciled'' \<longrightarrow> dict_get dd k = dict_get [(''status'', JStr ''running''), (''pnl_total'', JFloat 4)] k"
    and r4: "''B'' \<in> set (fixed (fst (reconcile True (\<lambda>n. ''t'') (\<lambda>p. ''m'') [(''A'', \<lparr>pid = Some 11, running = True, started_at = Some ''s'', cmdline = ''python a''\<rparr>)] [(''B.json'', Doc [(''status'', JStr ''running''), (''pnl_total'', JFloat 4)])])))"
    by (elim exE conjE)
  from fr [THEN spec, of "''pnl_total''"] have r5: "dict_get dd ''pnl_total'' = Some (JFloat 4)"
    by (simp add: dict_get_def)
  have rb: "\<exists>d. map_of (snd (reconcile True (\<lambda>n. ''t'') (\<lambda>p. ''m'') [(''A'', \<lparr>pid = Some 11, running = True, started_at = Some ''s'', cmdline = ''python a''\<rparr>)] [(''B.json'', Doc [(''status'', JStr ''running''), (''pnl_total'', JFloat 4)])])) (state_file ''B'') = Some (Doc d) \<and>
        dict_get d ''status'' = Some (JStr ''stopped'') \<and>
        dict_get d ''status_color'' = Some (JStr ''red'') \<and>
        dict_get d ''pnl_total'' = Some (JFloat 4) \<and>
        ''B'' \<in> set (fixed (fst (reconcile True (\<lambda>n. ''t'') (\<lambda>p. ''m'') [(''A'', \<lparr>pid = Some 11, running = True, started_at = Some ''s'', cmdline = ''python a''\<rparr>)] [(''B.json'', Doc [(''status'', JStr ''running''), (''pnl_total'', JFloat 4)])])))"
    using r1 r2 r3 r5 r4 by (intro exI [of _ dd] conjI)
  have sb: "status \<lparr>status = JStr ''running'', last_update = JNull, file_mtime = ''m''\<rparr> = JStr ''running''" by simp
  note a1 = a [THEN conjunct1] and a2 = a [THEN conjunct2]
  note b1 = b [THEN conjunct1] and b3 = b [THEN conjunct2, THEN conjunct2, THEN conjunct1]
    and b4 = b [THEN conjunct2, THEN conjunct2, THEN conjunct2]
  from d a1 a2 ra b1 sb b3 b4 rb show ?thesis
    by - (intro conjI; assumption)
qed

text \<open>
  C10. The record that \<open>_create_state_file\<close> writes has exactly the fields
  \<open>bot_id\<close>, \<open>bot_name\<close>, \<open>status\<close>, \<open>status_color\<close>, \<open>pid\<close>, \<open>started_at\<close>,
  \<open>last_update\<close> and \<open>reconciled\<close>, and so has the state file that an auto-fix run
  leaves for a bot of the process map that the file map lacks: none of
  \<open>pnl_total\<close>, \<open>pnl_24h\<close>, \<open>trades_total\<close>, \<open>trades_24h\<close>, \<open>position\<close>,
  \<open>last_error\<close>, \<open>uptime_seconds\<close>, \<open>version\<close> is in it.
\<close>

theorem synthesized_file_fields:
  "map fst (created_state b0 p0 now) = [''bot_id'', ''bot_name'', ''status'', ''status_color'', ''pid'', ''started_at'', ''last_update'', ''reconciled''] \<and>
   (distinct (map fst pm) \<longrightarrow>
    (\<forall>b p. map_of pm b = Some p \<and> map_of (get_file_states mtime files) b = None \<longrightarrow>
       (\<exists>d. map_of (snd (reconcile True clk mtime pm files)) (state_file b) = Some (Doc d) \<and>
          map fst d = [''bot_id'', ''bot_name'', ''status'', ''status_color'', ''pid'', ''started_at'', ''last_update'', ''reconciled''] \<and>
          dict_get d ''pnl_total'' = None \<and>
          dict_get d ''pnl_24h'' = None \<and>
          dict_get d ''trades_total'' = None \<and>
          dict_get d ''trades_24h'' = None \<and>
          dict_get d ''position'' = None \<and>
          dict_get d ''last_error'' = None \<and>
          dict_get d ''uptime_seconds'' = None \<and>
          dict_get d ''version'' = None)))"
proof (intro conjI impI allI)
  show "map fst (created_state b0 p0 now) = [''bot_id'', ''bot_name'', ''status'', ''status_color'', ''pid'', ''started_at'', ''last_update'', ''reconciled'']"
    by (rule created_state_fields(3))
next
  fix b p
  assume dp: "distinct (map fst pm)"
    and h: "map_of pm b = Some p \<and> map_of (get_file_states mtime files) b = None"
  from h have inp: "map_of pm b = Some p"
    and nof: "map_of (get_file_states mtime files) b = None" by simp_all
  note c = reconcile_maps_created(1) [OF dp inp nof, of clk files, folded reconcile_def]
  from c obtain n where
    a: "map_of (snd (reconcile True clk mtime pm files)) (state_file b)
          = Some (Doc (created_state b p (clk n)))"
    by blast
  have "map fst (created_state b p (clk n)) = [''bot_id'', ''bot_name'', ''status'', ''status_color'', ''pid'', ''started_at'', ''last_update'', ''reconciled''] \<and>
          dict_get (created_state b p (clk n)) ''pnl_total'' = None \<and>
          dict_get (created_state b p (clk n)) ''pnl_24h'' = None \<and>
          dict_get (created_state b p (clk n)) ''trades_total'' = None \<and>
          dict_get (created_state b p (clk n)) ''trades_24h'' = None \<and>
          dict_get (created_state b p (clk n)) ''position'' = None \<and>
          dict_get (created_state b p (clk n)) ''last_error'' = None \<and>
          dict_get (created_state b p (clk n)) ''uptime_seconds'' = None \<and>
          dict_get (created_state b p (clk n)) ''version'' = None"
    by (simp add: created_state_fields created_state_absent)
  note cs = this
  from a cs show "\<exists>d. map_of (snd (reconcile True clk mtime pm files)) (state_file b) = Some (Doc d) \<and>
          map fst d = [''bot_id'', ''bot_name'', ''status'', ''status_color'', ''pid'', ''started_at'', ''last_update'', ''reconciled''] \<and>
          dict_get d ''pnl_total'' = None \<and>
          dict_get d ''pnl_24h'' = None \<and>
          dict_get d ''trades_total'' = None \<and>
          dict_get d ''trades_24h'' = None \<and>
          dict_get d ''position'' = None \<and>
          dict_get d ''last_error'' = None \<and>
          dict_get d ''uptime_seconds'' = None \<and>
          dict_get d ''version'' = None"
    by (intro exI [of _ "created_state b p (clk n)"]) simp
qed

theorem synthesized_file_fields_witness:
  "distinct (map fst [(''A'', \<lparr>pid = Some 11, running = True, started_at = Some ''s'', cmdline = ''python a''\<rparr>)]) \<and>
   map_of [(''A'', \<lparr>pid = Some 11, running = True, started_at = Some ''s'', cmdline = ''python a''\<rparr>)] ''A'' = Some \<lparr>pid = Some 11, running = True, started_at = Some ''s'', cmdline = ''python a''\<rparr> \<and>
   map_of (get_file_states (\<lambda>p. ''m'') [(''B.json'', Doc [(''status'', JStr ''running''), (''pnl_total'', JFloat 4)])]) ''A'' = None \<and>
   (\<exists>d. map_of (snd (reconcile True (\<lambda>n. ''t'') (\<lambda>p. ''m'') [(''A'', \<lparr>pid = Some 11, running = True, started_at = Some ''s'', cmdline = ''python a''\<rparr>)] [(''B.json'', Doc [(''status'', JStr ''running''), (''pnl_total'', JFloat 4)])])) (state_file ''A'') = Some (Doc d) \<and>
      map fst d = [''bot_id'', ''bot_name'', ''status'', ''status_color'', ''pid'', ''started_at'', ''last_update'', ''reconciled''] \<and>
      dict_get d ''pnl_total'' = None \<and>
      dict_get d ''version'' = None)"
proof -
  have d: "distinct (map fst [(''A'', \<lparr>pid = Some 11, running = True, started_at = Some ''s'', cmdline = ''python a''\<rparr>)])" by simp
  have a: "map_of [(''A'', \<lparr>pid = Some 11, running = True, started_at = Some ''s'', cmdline = ''python a''\<rparr>)] ''A'' = Some \<lparr>pid = Some 11, running = True, started_at = Some ''s'', cmdline = ''python a''\<rparr> \<and>
           map_of (get_file_states (\<lambda>p. ''m'') [(''B.json'', Doc [(''status'', JStr ''running''), (''pnl_total'', JFloat 4)])]) ''A'' = None"
    by (simp add: scan_example)
  note inst = synthesized_file_fields [where clk = "\<lambda>n. ''t''", THEN conjunct2, THEN mp, OF d, THEN spec, THEN spec,
      THEN mp, OF a]
  from inst obtain dd where
    r1: "map_of (snd (reconcile True (\<lambda>n. ''t'') (\<lambda>p. ''m'') [(''A'', \<lparr>pid = Some 11, running = True, started_at = Some ''s'', cmdline = ''python a''\<rparr>)] [(''B.json'', Doc [(''status'', JStr ''running''), (''pnl_total'', JFloat 4)])])) (state_file ''A'') = Some (Doc dd)"
    and r2: "map fst dd = [''bot_id'', ''bot_name'', ''status'', ''status_color'', ''pid'', ''started_at'', ''last_update'', ''reconciled'']"
    and r3: "dict_get dd ''pnl_total'' = None"
    and r4: "dict_get dd ''version'' = None"
    by (elim exE conjE)
  have "\<exists>d. map_of (snd (reconcile True (\<lambda>n. ''t'') (\<lambda>p. ''m'') [(''A'', \<lparr>pid = Some 11, running = True, started_at = Some ''s'', cmdline = ''python a''\<rparr>)] [(''B.json'', Doc [(''status'', JStr ''running''), (''pnl_total'', JFloat 4)])])) (state_file ''A'') = Some (Doc d) \<and>
      map fst d = [''bot_id'', ''bot_name'', ''status'', ''status_color'', ''pid'', ''started_at'', ''last_update'', ''reconciled''] \<and>
      dict_get d ''pnl_total'' = None \<and>
      dict_get d ''version'' = None"
    using r1 r2 r3 r4 by (intro exI [of _ dd] conjI)
  note r = this
  note a1 = a [THEN conjunct1] and a2 = a [THEN conjunct2]
  from d a1 a2 r show ?thesis
    by - (intro conjI; assumption)
qed

section \<open>Claims about the classifier\<close>

lemma lower_simps:
  "lower [] = []"
  "lower (c # cs) = lower_char c # lower cs"
  by (simp_all add: lower_def)

text \<open>
  C8, as stated, fails: a command line can match a rule and still be dropped. The
  third rule matches \<open>python run_hummingbot.py --long\<close> (it has \<open>python\<close> and
  \<open>long\<close>), finds neither \<open>btc\<close> nor \<open>doge\<close> and returns nothing; the rule for
  \<open>hummingbot\<close>, which matches too, is not tried.
\<close>

theorem extract_bot_id_counterexample:
  "third_rule_matches ''python run_hummingbot.py --long'' \<and>
   contains (lower ''python run_hummingbot.py --long'') ''hummingbot'' \<and>
   extract_bot_id ''python run_hummingbot.py --long'' = None"
  by (simp add: third_rule_matches_def extract_bot_id_def lower_simps lower_char_def
      upper_letters_def lower_letters_def)

text \<open>
  C8, amended. The classifier returns what the first of its four rules whose pattern
  matches gives: \<open>mm_15m\<close>, \<open>mm_1h\<close>, for the third rule the asset and direction
  identifier if there is one and nothing otherwise, and \<open>hummingbot\<close>. So a command
  line with \<open>hummingbot\<close> (in any case) that no earlier rule matches is classified as
  \<open>hummingbot\<close>, and one that no rule matches is dropped.
\<close>

theorem extract_bot_id_first_match:
  "extract_bot_id cmd = first_match classification_rules cmd \<and>
   (\<not> contains cmd ''mm_optimized_15m'' \<and> \<not> contains cmd ''mm_optimized_1h'' \<and>
    \<not> third_rule_matches cmd \<and> contains (lower cmd) ''hummingbot''
      \<longrightarrow> extract_bot_id cmd = Some ''hummingbot'') \<and>
   (\<not> contains cmd ''mm_optimized_15m'' \<and> \<not> contains cmd ''mm_optimized_1h'' \<and>
    third_rule_matches cmd
      \<longrightarrow> extract_bot_id cmd = asset_direction_id cmd) \<and>
   ((\<forall>r \<in> set classification_rules. \<not> fst r cmd) \<longrightarrow> extract_bot_id cmd = None)"
proof (intro conjI impI)
  show "extract_bot_id cmd = first_match classification_rules cmd"
    by (auto simp add: extract_bot_id_def first_match_def classification_rules_def
        third_rule_matches_def asset_direction_id_def Let_def)
next
  assume "\<not> contains cmd ''mm_optimized_15m'' \<and> \<not> contains cmd ''mm_optimized_1h'' \<and>
    \<not> third_rule_matches cmd \<and> contains (lower cmd) ''hummingbot''"
  then show "extract_bot_id cmd = Some ''hummingbot''"
    by (auto simp add: extract_bot_id_def third_rule_matches_def Let_def)
next
  assume "\<not> contains cmd ''mm_optimized_15m'' \<and> \<not> contains cmd ''mm_optimized_1h'' \<and>
    third_rule_matches cmd"
  then show "extract_bot_id cmd = asset_direction_id cmd"
    by (auto simp add: extract_bot_id_def third_rule_matches_def asset_direction_id_def Let_def)
next
  assume "\<forall>r \<in> set classification_rules. \<not> fst r cmd"
  then show "extract_bot_id cmd = None"
    by (auto simp add: extract_bot_id_def classification_rules_def third_rule_matches_def Let_def)
qed

theorem extract_bot_id_first_match_witness:
  "\<not> contains ''/usr/bin/Hummingbot start'' ''mm_optimized_15m'' \<and>
   \<not> contains ''/usr/bin/Hummingbot start'' ''mm_optimized_1h'' \<and>
   \<not> third_rule_matches ''/usr/bin/Hummingbot start'' \<and>
   contains (lower ''/usr/bin/Hummingbot start'') ''hummingbot'' \<and>
   extract_bot_id ''/usr/bin/Hummingbot start'' = Some ''hummingbot'' \<and>
   \<not> contains ''python3 run_BTC_Short.py'' ''mm_optimized_15m'' \<and>
   \<not> contains ''python3 run_BTC_Short.py'' ''mm_optimized_1h'' \<and>
   third_rule_matches ''python3 run_BTC_Short.py'' \<and>
   extract_bot_id ''python3 run_BTC_Short.py'' = asset_direction_id ''python3 run_BTC_Short.py'' \<and>
   asset_direction_id ''python3 run_BTC_Short.py'' = Some ''btc_short_v1'' \<and>
   \<not> contains ''ls -la'' ''mm_optimized_15m'' \<and>
   \<not> contains ''ls -la'' ''mm_optimized_1h'' \<and>
   \<not> third_rule_matches ''ls -la'' \<and>
   \<not> contains (lower ''ls -la'') ''hummingbot'' \<and>
   extract_bot_id ''ls -la'' = None"
proof -
  note ev = third_rule_matches_def lower_simps lower_char_def upper_letters_def lower_letters_def
  have h1: "\<not> contains ''/usr/bin/Hummingbot start'' ''mm_optimized_15m'' \<and>
     \<not> contains ''/usr/bin/Hummingbot start'' ''mm_optimized_1h'' \<and>
     \<not> third_rule_matches ''/usr/bin/Hummingbot start'' \<and>
     contains (lower ''/usr/bin/Hummingbot start'') ''hummingbot''"
    by (simp add: ev)
  have h2: "\<not> contains ''python3 run_BTC_Short.py'' ''mm_optimized_15m'' \<and>
     \<not> contains ''python3 run_BTC_Short.py'' ''mm_optimized_1h'' \<and>
     third_rule_matches ''python3 run_BTC_Short.py''"
    by (simp add: ev)
  have a2: "asset_direction_id ''python3 run_BTC_Short.py'' = Some ''btc_short_v1''"
    by (simp add: asset_direction_id_def ev)
  have n3: "\<not> contains ''ls -la'' ''mm_optimized_15m'' \<and>
     \<not> contains ''ls -la'' ''mm_optimized_1h'' \<and>
     \<not> third_rule_matches ''ls -la'' \<and>
     \<not> contains (lower ''ls -la'') ''hummingbot''"
    by (simp add: ev)
  then have h3: "\<forall>r \<in> set classification_rules. \<not> fst r ''ls -la''"
    by (simp add: classification_rules_def)
  note n31 = n3 [THEN conjunct1] and n32 = n3 [THEN conjunct2, THEN conjunct1]
    and n33 = n3 [THEN conjunct2, THEN conjunct2, THEN conjunct1]
    and n34 = n3 [THEN conjunct2, THEN conjunct2, THEN conjunct2]
  note r1 = extract_bot_id_first_match [THEN conjunct2, THEN conjunct1, THEN mp, OF h1]
  note r2 = extract_bot_id_first_match [THEN conjunct2, THEN conjunct2, THEN conjunct1, THEN mp, OF h2]
  note r3 = extract_bot_id_first_match [THEN conjunct2, THEN conjunct2, THEN conjunct2, THEN mp, OF h3]
  note h11 = h1 [THEN conjunct1] and h12 = h1 [THEN conjunct2, THEN conjunct1]
    and h13 = h1 [THEN conjunct2, THEN conjunct2, THEN conjunct1]
    and h14 = h1 [THEN conjunct2, THEN conjunct2, THEN conjunct2]
  note h21 = h2 [THEN conjunct1] and h22 = h2 [THEN conjunct2, THEN conjunct1]
    and h23 = h2 [THEN conjunct2, THEN conjunct2]
  from h11 h12 h13 h14 r1 h21 h22 h23 r2 a2 n31 n32 n33 n34 r3 show ?thesis
    by - (intro conjI; assumption)
qed

section \<open>The colour of a record, in the writer and in the reconciler\<close>

lemma setters_are_updates:
  "set_running w extra now files = Inr (d, files') \<Longrightarrow> \<exists>u. update w u now files = Inr (d, files')"
  "set_error w msg now files = Inr (d, files') \<Longrightarrow> \<exists>u. update w u now files = Inr (d, files')"
  "set_paused w now files = Inr (d, files') \<Longrightarrow> \<exists>u. update w u now files = Inr (d, files')"
  "set_stopped w now files = Inr (d, files') \<Longrightarrow> \<exists>u. update w u now files = Inr (d, files')"
  "update_position w side sz entry opened now files = Inr (d, files')
     \<Longrightarrow> \<exists>u. update w u now files = Inr (d, files')"
  unfolding set_running_def set_error_def set_paused_def set_stopped_def update_position_def
  by blast+

lemma loads_Inr: "loads c = Inr st \<Longrightarrow> c = Doc st"
  by (cases c) simp_all

lemma update_state_to_stopped_noop:
  assumes "\<forall>d. map_of files (state_file b) \<noteq> Some (Doc d)"
  shows "fst (update_state_to_stopped b now files) = files"
  using assms
  by (auto simp: update_state_to_stopped_def dest: loads_Inr split: option.splits sum.splits)

lemma loop1_unfixed: "fst (snd (fold (check_process False clk fm) pm (rep, files, t))) = files"
proof (induction pm arbitrary: rep files t)
  case Nil
  then show ?case by simp
next
  case (Cons e pm)
  obtain r' f' t' where step: "check_process False clk fm e (rep, files, t) = (r', f', t')"
    by (metis prod_cases3)
  from check_process_files [of False clk fm e rep files t] step have "f' = files" by simp
  with Cons.IH [of r' f' t'] show ?case by (simp add: step)
qed

lemma loop2_unfixed: "fst (snd (fold (check_file False clk pm) fm (rep, files, t))) = files"
proof (induction fm arbitrary: rep files t)
  case Nil
  then show ?case by simp
next
  case (Cons e fm)
  obtain r' f' t' where step: "check_file False clk pm e (rep, files, t) = (r', f', t')"
    by (metis prod_cases3)
  from check_file_files [of False clk pm e rep files t] step have "f' = files" by simp
  with Cons.IH [of r' f' t'] show ?case by (simp add: step)
qed

lemma reconcile_maps_no_fix: "snd (reconcile_maps False clk pm fm files) = files"
proof -
  let ?rep = "\<lparr>timestamp = clk 0, processes_found = length pm, state_files_found = length fm,
               mismatches = [], fixed = [], healthy = True\<rparr>"
  obtain r1 f1 t1 where s1: "fold (check_process False clk fm) pm (?rep, files, 1) = (r1, f1, t1)"
    by (metis prod_cases3)
  from loop1_unfixed [of clk fm pm ?rep files 1] s1 have "f1 = files" by simp
  with loop2_unfixed [of clk pm fm r1 f1 t1] show ?thesis
    unfolding reconcile_maps_files s1 by simp
qed

lemma loop2_not_doc:
  assumes "\<forall>d. map_of files q \<noteq> Some (Doc d)"
  shows "map_of (fst (snd (fold (check_file af clk pm) fm (rep, files, t)))) q = map_of files q"
  using assms
proof (induction fm arbitrary: rep files t)
  case Nil
  then show ?case by simp
next
  case (Cons e fm)
  obtain r' f' t' where step: "check_file af clk pm e (rep, files, t) = (r', f', t')"
    by (metis prod_cases3)
  have same: "map_of f' q = map_of files q"
  proof (cases "q = state_file (fst e)")
    case True
    with Cons.prems have "fst (update_state_to_stopped (fst e) (clk t) files) = files"
      by (intro update_state_to_stopped_noop) simp
    with check_file_files [of af clk pm e rep files t] step show ?thesis by simp
  next
    case False
    with check_file_files [of af clk pm e rep files t] step show ?thesis
      by (auto simp: update_state_to_stopped_other)
  qed
  with Cons.prems have "\<forall>d. map_of f' q \<noteq> Some (Doc d)" by simp
  from Cons.IH [OF this, of r' t'] same show ?case by (simp add: step)
qed

lemma reconcile_maps_frame:
  assumes df: "distinct (map fst fm)"
  shows "map_of (snd (reconcile_maps af clk pm fm files)) q = map_of files q \<or>
     (\<exists>b. q = state_file b \<and>
        ((\<exists>p. map_of pm b = Some p \<and> map_of fm b = None) \<or>
         (\<exists>f old. map_of fm b = Some f \<and> says_running (status f) \<and> map_of pm b = None \<and>
             map_of files q = Some (Doc old))))"
proof -
  let ?rep = "\<lparr>timestamp = clk 0, processes_found = length pm, state_files_found = length fm,
               mismatches = [], fixed = [], healthy = True\<rparr>"
  obtain r1 f1 t1 where s1: "fold (check_process af clk fm) pm (?rep, files, 1) = (r1, f1, t1)"
    by (metis prod_cases3)
  note fin = reconcile_maps_files [of af clk pm fm files, unfolded s1]
  show ?thesis
  proof (cases "\<exists>e \<in> set pm. lacks_file fm e \<and> state_file (fst e) = q")
    case True
    then obtain e where e: "e \<in> set pm" "map_of fm (fst e) = None" "q = state_file (fst e)"
      by (auto simp: lacks_file_def)
    from e(1) have "fst e \<in> fst ` set pm" by (rule imageI)
    then obtain p where "map_of pm (fst e) = Some p"
      by (metis domIff dom_map_of_conv_image_fst not_Some_eq)
    with e show ?thesis by blast
  next
    case False
    then have "\<forall>e \<in> set pm. lacks_file fm e \<longrightarrow> state_file (fst e) \<noteq> q" by blast
    from loop1_other [OF this, of af clk ?rep files 1] s1
    have f1: "map_of f1 q = map_of files q" by simp
    show ?thesis
    proof (cases "\<exists>e \<in> set fm. lacks_process pm e \<and> state_file (fst e) = q")
      case True
      then obtain e where e: "e \<in> set fm" "map_of pm (fst e) = None"
        "says_running (status (snd e))" "q = state_file (fst e)"
        by (auto simp: lacks_process_def)
      from e(1) df have inf: "map_of fm (fst e) = Some (snd e)" by simp
      show ?thesis
      proof (cases "\<exists>old. map_of files q = Some (Doc old)")
        case True
        with e inf show ?thesis by blast
      next
        case False
        with f1 have "\<forall>d. map_of f1 q \<noteq> Some (Doc d)" by simp
        from loop2_not_doc [OF this, of af clk pm fm r1 t1] f1 show ?thesis
          unfolding fin by simp
      qed
    next
      case False
      then have "\<forall>e \<in> set fm. lacks_process pm e \<longrightarrow> state_file (fst e) \<noteq> q" by blast
      from loop2_other [OF this, of af clk r1 f1 t1] f1 show ?thesis
        unfolding fin by simp
    qed
  qed
qed

text \<open>
  C5. The colour that \<open>update\<close> computes for a status string is the colour of the
  fixed mapping (running and active green, initializing and paused yellow, stopped
  and error red, offline gray, anything else yellow). Whenever \<open>update\<close> or one of
  \<open>set_running\<close>, \<open>set_error\<close>, \<open>set_paused\<close>, \<open>set_stopped\<close>,
  \<open>update_position\<close> returns, the record it returns satisfies the mapping, whatever
  the caller put in the update fields, and is the document on disk. In an auto-fix
  run of the reconciler, the state file created for a bot of the process map that
  the file map lacks holds a record that satisfies the mapping, and so does the
  state file rewritten for a bot of the file map that says \<open>running\<close> or \<open>active\<close>
  and has no process; no other file changes, and without auto-fix none does.
\<close>

theorem status_color_follows_status:
  "color_map_get (JStr s) = Inr (spec_status_color s) \<and>
   (update w u now files = Inr (d, files') \<longrightarrow> satisfies_color_mapping d \<and> map_of files' (state_file (bot_id w)) = Some (Doc d)) \<and>
   (set_running w extra now files = Inr (d, files') \<longrightarrow> satisfies_color_mapping d \<and> map_of files' (state_file (bot_id w)) = Some (Doc d)) \<and>
   (set_error w msg now files = Inr (d, files') \<longrightarrow> satisfies_color_mapping d \<and> map_of files' (state_file (bot_id w)) = Some (Doc d)) \<and>
   (set_paused w now files = Inr (d, files') \<longrightarrow> satisfies_color_mapping d \<and> map_of files' (state_file (bot_id w)) = Some (Doc d)) \<and>
   (set_stopped w now files = Inr (d, files') \<longrightarrow> satisfies_color_mapping d \<and> map_of files' (state_file (bot_id w)) = Some (Doc d)) \<and>
   (update_position w side sz entry opened now files = Inr (d, files') \<longrightarrow> satisfies_color_mapping d \<and> map_of files' (state_file (bot_id w)) = Some (Doc d)) \<and>
   changed_ok files0 (snd (reconcile af clk mtime pm files0)) \<and>
   (distinct (map fst pm) \<longrightarrow>
    (\<forall>b p. map_of pm b = Some p \<and> map_of (get_file_states mtime files0) b = None \<longrightarrow>
       (\<exists>d0. map_of (snd (reconcile True clk mtime pm files0)) (state_file b) = Some (Doc d0) \<and>
             satisfies_color_mapping d0))) \<and>
   (\<forall>b f old.
      map_of (get_file_states mtime files0) b = Some f \<and>
      (status f = JStr ''running'' \<or> status f = JStr ''active'') \<and>
      map_of pm b = None \<and>
      map_of files0 (state_file b) = Some (Doc old) \<longrightarrow>
      (\<exists>d0. map_of (snd (reconcile True clk mtime pm files0)) (state_file b) = Some (Doc d0) \<and>
            satisfies_color_mapping d0)) \<and>
   (\<forall>q. map_of (snd (reconcile af clk mtime pm files0)) q = map_of files0 q \<or>
      (\<exists>b. q = state_file b \<and>
         ((\<exists>p. map_of pm b = Some p \<and> map_of (get_file_states mtime files0) b = None) \<or>
          (\<exists>f old. map_of (get_file_states mtime files0) b = Some f \<and>
              (status f = JStr ''running'' \<or> status f = JStr ''active'') \<and>
              map_of pm b = None \<and> map_of files0 q = Some (Doc old))))) \<and>
   snd (reconcile False clk mtime pm files0) = files0"
proof -
  have via: "satisfies_color_mapping d \<and> map_of files' (state_file (bot_id w)) = Some (Doc d)" if "\<exists>u. update w u now files = Inr (d, files')"
  proof -
    from that obtain u where "update w u now files = Inr (d, files')" ..
    then show ?thesis by (rule update_satisfies)
  qed
  have c0: "color_map_get (JStr s) = Inr (spec_status_color s)"
    by (rule color_map_get_str)
  have c1: "update w u now files = Inr (d, files') \<longrightarrow> satisfies_color_mapping d \<and> map_of files' (state_file (bot_id w)) = Some (Doc d)"
    using update_satisfies by blast
  have c2: "set_running w extra now files = Inr (d, files') \<longrightarrow> satisfies_color_mapping d \<and> map_of files' (state_file (bot_id w)) = Some (Doc d)"
    by (rule impI, rule via, erule setters_are_updates(1))
  have c3: "set_error w msg now files = Inr (d, files') \<longrightarrow> satisfies_color_mapping d \<and> map_of files' (state_file (bot_id w)) = Some (Doc d)"
    by (rule impI, rule via, erule setters_are_updates(2))
  have c4: "set_paused w now files = Inr (d, files') \<longrightarrow> satisfies_color_mapping d \<and> map_of files' (state_file (bot_id w)) = Some (Doc d)"
    by (rule impI, rule via, erule setters_are_updates(3))
  have c5: "set_stopped w now files = Inr (d, files') \<longrightarrow> satisfies_color_mapping d \<and> map_of files' (state_file (bot_id w)) = Some (Doc d)"
    by (rule impI, rule via, erule setters_are_updates(4))
  have c6: "update_position w side sz entry opened now files = Inr (d, files') \<longrightarrow> satisfies_color_mapping d \<and> map_of files' (state_file (bot_id w)) = Some (Doc d)"
    by (rule impI, rule via, erule setters_are_updates(5))
  have c7: "changed_ok files0 (snd (reconcile af clk mtime pm files0))"
    unfolding reconcile_def by (rule reconcile_maps_changed_ok)
  have c8: "(distinct (map fst pm) \<longrightarrow>
    (\<forall>b p. map_of pm b = Some p \<and> map_of (get_file_states mtime files0) b = None \<longrightarrow>
       (\<exists>d0. map_of (snd (reconcile True clk mtime pm files0)) (state_file b) = Some (Doc d0) \<and>
             satisfies_color_mapping d0)))"
  proof (intro impI allI)
    fix b p
    assume dp: "distinct (map fst pm)"
      and h: "map_of pm b = Some p \<and> map_of (get_file_states mtime files0) b = None"
    from h have inp: "map_of pm b = Some p"
      and nof: "map_of (get_file_states mtime files0) b = None" by simp_all
    from reconcile_maps_created(1) [OF dp inp nof, of clk files0, folded reconcile_def]
    obtain n where "map_of (snd (reconcile True clk mtime pm files0)) (state_file b)
        = Some (Doc (created_state b p (clk n)))" ..
    with satisfies_created [of b p "clk n"]
    show "\<exists>d0. map_of (snd (reconcile True clk mtime pm files0)) (state_file b) = Some (Doc d0) \<and>
             satisfies_color_mapping d0"
      by blast
  qed
  have c9: "(\<forall>b f old.
      map_of (get_file_states mtime files0) b = Some f \<and>
      (status f = JStr ''running'' \<or> status f = JStr ''active'') \<and>
      map_of pm b = None \<and>
      map_of files0 (state_file b) = Some (Doc old) \<longrightarrow>
      (\<exists>d0. map_of (snd (reconcile True clk mtime pm files0)) (state_file b) = Some (Doc d0) \<and>
            satisfies_color_mapping d0))"
  proof (intro impI allI)
    fix b f old
    assume h: "map_of (get_file_states mtime files0) b = Some f \<and>
      (status f = JStr ''running'' \<or> status f = JStr ''active'') \<and>
      map_of pm b = None \<and>
      map_of files0 (state_file b) = Some (Doc old)"
    then have run: "says_running (status f)" by (simp add: says_running_def)
    from h have inf: "map_of (get_file_states mtime files0) b = Some f"
      and nop: "map_of pm b = None"
      and onfile: "map_of files0 (state_file b) = Some (Doc old)" by simp_all
    from reconcile_maps_stopped(1) [OF distinct_get_file_states inf run nop onfile, of clk,
        folded reconcile_def]
    obtain n where "map_of (snd (reconcile True clk mtime pm files0)) (state_file b)
        = Some (Doc (stopped_state old (clk n)))" ..
    with satisfies_stopped [of old "clk n"]
    show "\<exists>d0. map_of (snd (reconcile True clk mtime pm files0)) (state_file b) = Some (Doc d0) \<and>
            satisfies_color_mapping d0"
      by blast
  qed
  have c10: "(\<forall>q. map_of (snd (reconcile af clk mtime pm files0)) q = map_of files0 q \<or>
      (\<exists>b. q = state_file b \<and>
         ((\<exists>p. map_of pm b = Some p \<and> map_of (get_file_states mtime files0) b = None) \<or>
          (\<exists>f old. map_of (get_file_states mtime files0) b = Some f \<and>
              (status f = JStr ''running'' \<or> status f = JStr ''active'') \<and>
              map_of pm b = None \<and> map_of files0 q = Some (Doc old)))))"
    using reconcile_maps_frame [OF distinct_get_file_states [of mtime files0],
        where af = af and clk = clk and pm = pm and files = files0]
    by (simp add: reconcile_def says_running_def)
  have c11: "snd (reconcile False clk mtime pm files0) = files0"
    unfolding reconcile_def by (rule reconcile_maps_no_fix)
  from c0 c1 c2 c3 c4 c5 c6 c7 c8 c9 c10 c11 show ?thesis
    by - (intro conjI; assumption)
qed

lemma update_example:
  "update \<lparr>bot_id = ''b'', bot_name = ''b'', default_state = []\<rparr> u ''t'' [] =
     (case color_map_get (dict_get_default (dict_update [] u) ''status'' (JStr ''unknown'')) of
        Inl e \<Rightarrow> Inl e
      | Inr c \<Rightarrow>
          Inr (AList.update ''last_update'' (JStr ''t'')
                 (AList.update ''status_color'' (JStr c) (dict_update [] u)),
               [(''b.json'',
                 Doc (AList.update ''last_update'' (JStr ''t'')
                        (AList.update ''status_color'' (JStr c) (dict_update [] u))))]))"
  by (simp add: update_def read_current_def write_state_def write_text_def replace_file_def
      tmp_b state_file_def Let_def split: sum.splits)

theorem status_color_follows_status_witness:
  "update \<lparr>bot_id = ''b'', bot_name = ''b'', default_state = []\<rparr> [(''status'', JStr ''stopped''), (''status_color'', JStr ''green'')] ''t'' [] = Inr ([(''status'', JStr ''stopped''), (''status_color'', JStr ''red''), (''last_update'', JStr ''t'')], [(''b.json'', Doc [(''status'', JStr ''stopped''), (''status_color'', JStr ''red''), (''last_update'', JStr ''t'')])]) \<and>
   satisfies_color_mapping [(''status'', JStr ''stopped''), (''status_color'', JStr ''red''), (''last_update'', JStr ''t'')] \<and>
   set_running \<lparr>bot_id = ''b'', bot_name = ''b'', default_state = []\<rparr> (Some [(''status_color'', JStr ''red'')]) ''t'' [] = Inr ([(''status'', JStr ''running''), (''status_color'', JStr ''green''), (''last_update'', JStr ''t'')], [(''b.json'', Doc [(''status'', JStr ''running''), (''status_color'', JStr ''green''), (''last_update'', JStr ''t'')])]) \<and>
   satisfies_color_mapping [(''status'', JStr ''running''), (''status_color'', JStr ''green''), (''last_update'', JStr ''t'')] \<and>
   set_error \<lparr>bot_id = ''b'', bot_name = ''b'', default_state = []\<rparr> ''boom'' ''t'' [] = Inr ([(''status'', JStr ''error''), (''last_error'', JStr ''boom''), (''status_color'', JStr ''red''), (''last_update'', JStr ''t'')], [(''b.json'', Doc [(''status'', JStr ''error''), (''last_error'', JStr ''boom''), (''status_color'', JStr ''red''), (''last_update'', JStr ''t'')])]) \<and>
   satisfies_color_mapping [(''status'', JStr ''error''), (''last_error'', JStr ''boom''), (''status_color'', JStr ''red''), (''last_update'', JStr ''t'')] \<and>
   set_paused \<lparr>bot_id = ''b'', bot_name = ''b'', default_state = []\<rparr> ''t'' [] = Inr ([(''status'', JStr ''paused''), (''status_color'', JStr ''yellow''), (''last_update'', JStr ''t'')], [(''b.json'', Doc [(''status'', JStr ''paused''), (''status_color'', JStr ''yellow''), (''last_update'', JStr ''t'')])]) \<and>
   satisfies_color_mapping [(''status'', JStr ''paused''), (''status_color'', JStr ''yellow''), (''last_update'', JStr ''t'')] \<and>
   set_stopped \<lparr>bot_id = ''b'', bot_name = ''b'', default_state = []\<rparr> ''t'' [] = Inr ([(''status'', JStr ''stopped''), (''status_color'', JStr ''red''), (''last_update'', JStr ''t'')], [(''b.json'', Doc [(''status'', JStr ''stopped''), (''status_color'', JStr ''red''), (''last_update'', JStr ''t'')])]) \<and>
   satisfies_color_mapping [(''status'', JStr ''stopped''), (''status_color'', JStr ''red''), (''last_update'', JStr ''t'')] \<and>
   update_position \<lparr>bot_id = ''b'', bot_name = ''b'', default_state = []\<rparr> None 0 None ''t0'' ''t'' [] = Inr ([(''position'', JNull), (''status_color'', JStr ''yellow''), (''last_update'', JStr ''t'')], [(''b.json'', Doc [(''position'', JNull), (''status_color'', JStr ''yellow''), (''last_update'', JStr ''t'')])]) \<and>
   satisfies_color_mapping [(''position'', JNull), (''status_color'', JStr ''yellow''), (''last_update'', JStr ''t'')] \<and>
   distinct (map fst [(''A'', \<lparr>pid = Some 11, running = True, started_at = Some ''s'', cmdline = ''python a''\<rparr>)]) \<and>
   map_of [(''A'', \<lparr>pid = Some 11, running = True, started_at = Some ''s'', cmdline = ''python a''\<rparr>)] ''A'' = Some \<lparr>pid = Some 11, running = True, started_at = Some ''s'', cmdline = ''python a''\<rparr> \<and>
   map_of (get_file_states (\<lambda>p. ''m'') [(''B.json'', Doc [(''status'', JStr ''running''), (''pnl_total'', JFloat 4)])]) ''A'' = None \<and>
   (\<exists>d0. map_of (snd (reconcile True (\<lambda>n. ''t'') (\<lambda>p. ''m'') [(''A'', \<lparr>pid = Some 11, running = True, started_at = Some ''s'', cmdline = ''python a''\<rparr>)] [(''B.json'', Doc [(''status'', JStr ''running''), (''pnl_total'', JFloat 4)])])) (state_file ''A'') = Some (Doc d0) \<and> satisfies_color_mapping d0) \<and>
   map_of (get_file_states (\<lambda>p. ''m'') [(''B.json'', Doc [(''status'', JStr ''running''), (''pnl_total'', JFloat 4)])]) ''B'' = Some \<lparr>status = JStr ''running'', last_update = JNull, file_mtime = ''m''\<rparr> \<and>
   status \<lparr>status = JStr ''running'', last_update = JNull, file_mtime = ''m''\<rparr> = JStr ''running'' \<and>
   map_of [(''A'', \<lparr>pid = Some 11, running = True, started_at = Some ''s'', cmdline = ''python a''\<rparr>)] ''B'' = None \<and>
   map_of [(''B.json'', Doc [(''status'', JStr ''running''), (''pnl_total'', JFloat 4)])] (state_file ''B'') = Some (Doc [(''status'', JStr ''running''), (''pnl_total'', JFloat 4)]) \<and>
   (\<exists>d0. map_of (snd (reconcile True (\<lambda>n. ''t'') (\<lambda>p. ''m'') [(''A'', \<lparr>pid = Some 11, running = True, started_at = Some ''s'', cmdline = ''python a''\<rparr>)] [(''B.json'', Doc [(''status'', JStr ''running''), (''pnl_total'', JFloat 4)])])) (state_file ''B'') = Some (Doc d0) \<and> satisfies_color_mapping d0)"
proof -
  note ev = update_example set_running_def set_error_def set_paused_def set_stopped_def
    update_position_def dict_update_def dict_get_default_def color_map_def
  have u: "update \<lparr>bot_id = ''b'', bot_name = ''b'', default_state = []\<rparr> [(''status'', JStr ''stopped''), (''status_color'', JStr ''green'')] ''t'' [] = Inr ([(''status'', JStr ''stopped''), (''status_color'', JStr ''red''), (''last_update'', JStr ''t'')], [(''b.json'', Doc [(''status'', JStr ''stopped''), (''status_color'', JStr ''red''), (''last_update'', JStr ''t'')])])"
    by (simp add: ev)
  note ur = status_color_follows_status [THEN conjunct2, THEN conjunct1, THEN mp, OF u, THEN conjunct1]
  have sr: "set_running \<lparr>bot_id = ''b'', bot_name = ''b'', default_state = []\<rparr> (Some [(''status_color'', JStr ''red'')]) ''t'' [] = Inr ([(''status'', JStr ''running''), (''status_color'', JStr ''green''), (''last_update'', JStr ''t'')], [(''b.json'', Doc [(''status'', JStr ''running''), (''status_color'', JStr ''green''), (''last_update'', JStr ''t'')])])"
    by (simp add: ev)
  note srr = status_color_follows_status [THEN conjunct2, THEN conjunct2, THEN conjunct1, THEN mp, OF sr, THEN conjunct1]
  have se: "set_error \<lparr>bot_id = ''b'', bot_name = ''b'', default_state = []\<rparr> ''boom'' ''t'' [] = Inr ([(''status'', JStr ''error''), (''last_error'', JStr ''boom''), (''status_color'', JStr ''red''), (''last_update'', JStr ''t'')], [(''b.json'', Doc [(''status'', JStr ''error''), (''last_error'', JStr ''boom''), (''status_color'', JStr ''red''), (''last_update'', JStr ''t'')])])"
    by (simp add: ev)
  note ser = status_color_follows_status [THEN conjunct2, THEN conjunct2, THEN conjunct2, THEN conjunct1, THEN mp, OF se, THEN conjunct1]
  have sp: "set_paused \<lparr>bot_id = ''b'', bot_name = ''b'', default_state = []\<rparr> ''t'' [] = Inr ([(''status'', JStr ''paused''), (''status_color'', JStr ''yellow''), (''last_update'', JStr ''t'')], [(''b.json'', Doc [(''status'', JStr ''paused''), (''status_color'', JStr ''yellow''), (''last_update'', JStr ''t'')])])"
    by (simp add: ev)
  note spr = status_color_follows_status [THEN conjunct2, THEN conjunct2, THEN conjunct2, THEN conjunct2, THEN conjunct1, THEN mp, OF sp, THEN conjunct1]
  have ss: "set_stopped \<lparr>bot_id = ''b'', bot_name = ''b'', default_state = []\<rparr> ''t'' [] = Inr ([(''status'', JStr ''stopped''), (''status_color'', JStr ''red''), (''last_update'', JStr ''t'')], [(''b.json'', Doc [(''status'', JStr ''stopped''), (''status_color'', JStr ''red''), (''last_update'', JStr ''t'')])])"
    by (simp add: ev)
  note ssr = status_color_follows_status [THEN conjunct2, THEN conjunct2, THEN conjunct2, THEN conjunct2, THEN conjunct2, THEN conjunct1, THEN mp, OF ss, THEN conjunct1]
  have up: "update_position \<lparr>bot_id = ''b'', bot_name = ''b'', default_state = []\<rparr> None 0 None ''t0'' ''t'' [] = Inr ([(''position'', JNull), (''status_color'', JStr ''yellow''), (''last_update'', JStr ''t'')], [(''b.json'', Doc [(''position'', JNull), (''status_color'', JStr ''yellow''), (''last_update'', JStr ''t'')])])"
    by (simp add: ev)
  note upr = status_color_follows_status [THEN conjunct2, THEN conjunct2, THEN conjunct2, THEN conjunct2, THEN conjunct2, THEN conjunct2, THEN conjunct1, THEN mp, OF up, THEN conjunct1]
  have dp: "distinct (map fst [(''A'', \<lparr>pid = Some 11, running = True, started_at = Some ''s'', cmdline = ''python a''\<rparr>)])" by simp
  have a: "map_of [(''A'', \<lparr>pid = Some 11, running = True, started_at = Some ''s'', cmdline = ''python a''\<rparr>)] ''A'' = Some \<lparr>pid = Some 11, running = True, started_at = Some ''s'', cmdline = ''python a''\<rparr> \<and>
           map_of (get_file_states (\<lambda>p. ''m'') [(''B.json'', Doc [(''status'', JStr ''running''), (''pnl_total'', JFloat 4)])]) ''A'' = None"
    by (simp add: scan_example)
  have b: "map_of (get_file_states (\<lambda>p. ''m'') [(''B.json'', Doc [(''status'', JStr ''running''), (''pnl_total'', JFloat 4)])]) ''B'' = Some \<lparr>status = JStr ''running'', last_update = JNull, file_mtime = ''m''\<rparr> \<and>
      (status \<lparr>status = JStr ''running'', last_update = JNull, file_mtime = ''m''\<rparr> = JStr ''running'' \<or> status \<lparr>status = JStr ''running'', last_update = JNull, file_mtime = ''m''\<rparr> = JStr ''active'') \<and>
      map_of [(''A'', \<lparr>pid = Some 11, running = True, started_at = Some ''s'', cmdline = ''python a''\<rparr>)] ''B'' = None \<and>
      map_of [(''B.json'', Doc [(''status'', JStr ''running''), (''pnl_total'', JFloat 4)])] (state_file ''B'') = Some (Doc [(''status'', JStr ''running''), (''pnl_total'', JFloat 4)])"
    by (simp add: scan_example state_file_def)
  note ra = status_color_follows_status [where clk = "\<lambda>n. ''t''", THEN conjunct2, THEN conjunct2, THEN conjunct2, THEN conjunct2, THEN conjunct2, THEN conjunct2, THEN conjunct2, THEN conjunct2, THEN conjunct1,
      THEN mp, OF dp, THEN spec, THEN spec, THEN mp, OF a]
  note rb = status_color_follows_status [where clk = "\<lambda>n. ''t''", THEN conjunct2, THEN conjunct2, THEN conjunct2, THEN conjunct2, THEN conjunct2, THEN conjunct2, THEN conjunct2, THEN conjunct2, THEN conjunct2, THEN conjunct1,
      THEN spec, THEN spec, THEN spec, THEN mp, OF b]
  have sb: "status \<lparr>status = JStr ''running'', last_update = JNull, file_mtime = ''m''\<rparr> = JStr ''running''" by simp
  note a1 = a [THEN conjunct1] and a2 = a [THEN conjunct2]
  note b1 = b [THEN conjunct1] and b3 = b [THEN conjunct2, THEN conjunct2, THEN conjunct1]
    and b4 = b [THEN conjunct2, THEN conjunct2, THEN conjunct2]
  from u ur sr srr se ser sp spr ss ssr up upr dp a1 a2 ra b1 sb b3 b4 rb show ?thesis
    by - (intro conjI; assumption)
qed

end
